theory Spec2Isabelle
  imports Complex_Main
begin

section \<open>Latent invocations of the image-generation graph (latent.py)\<close>

text \<open>
  A shallow embedding of \<^verbatim>\<open>invokeai/app/invocations/latent.py\<close>. The tensor runtime,
  the model manager, the image store and the diffusion pipeline are external collaborators:
  each of their operations is a parameter of the function that calls it. Python exceptions
  raised by the module's own expressions are values of \<open>py_error\<close>.
\<close>

subsection \<open>Errors, tensors, latents fields\<close>

datatype py_error = TypeError | AttributeError | IndexError | KeyError

datatype device = Cpu | Cuda | Mps

datatype dtype = Float16 | BFloat16 | Float32

text \<open>
  A tensor is its shape, its elements in row-major order, and the device and element type it
  lives on. \<open>size_at\<close> is \<^verbatim>\<open>t.size()[i]\<close> for a non-negative literal index, which raises
  IndexError past the last dimension.
\<close>

record tensor =
  shape :: "nat list"
  elems :: "real list"
  t_dtype :: dtype
  t_device :: device

definition size_at :: "tensor \<Rightarrow> nat \<Rightarrow> py_error + int" where
  "size_at t i = (if i < length (shape t) then Inr (int (shape t ! i)) else Inl IndexError)"

definition to_device :: "device \<Rightarrow> tensor \<Rightarrow> tensor" where
  "to_device d t = t\<lparr>t_device := d\<rparr>"

definition zeros_like :: "tensor \<Rightarrow> tensor" where
  "zeros_like t = t\<lparr>elems := replicate (length (elems t)) 0\<rparr>"

record LatentsField =
  latents_name :: "string option"
  seed :: "int option"

record LatentsOutput =
  latents :: LatentsField
  width :: int
  height :: int

text \<open>
  \<^verbatim>\<open>build_latents_output\<close>: Python evaluates the keyword arguments in order, so an
  IndexError of \<^verbatim>\<open>size()[3]\<close> comes before one of \<^verbatim>\<open>size()[2]\<close>.
\<close>

definition build_latents_output :: "string \<Rightarrow> tensor \<Rightarrow> int option \<Rightarrow> py_error + LatentsOutput" where
  "build_latents_output name t sd =
     (case size_at t 3 of
        Inl e \<Rightarrow> Inl e
      | Inr w \<Rightarrow>
          (case size_at t 2 of
             Inl e \<Rightarrow> Inl e
           | Inr h \<Rightarrow>
               Inr \<lparr>latents = \<lparr>latents_name = Some name, seed = sd\<rparr>,
                    width = w * 8, height = h * 8\<rparr>))"

subsection \<open>Timestep windowing: init_scheduler\<close>

text \<open>
  The scheduler object, as far as init_scheduler reads and writes it. \<open>set_timesteps n dev\<close>
  is the value of the \<^verbatim>\<open>timesteps\<close> attribute after \<^verbatim>\<open>set_timesteps(n, device=dev)\<close>;
  \<open>cpu_only\<close> is the optional config entry of that name.
\<close>

record scheduler =
  sched_order :: int
  cpu_only :: "bool option"
  num_train_timesteps :: int
  set_timesteps :: "int \<Rightarrow> device \<Rightarrow> real list"
  timesteps :: "real list"

text \<open>
  The thresholds \<^verbatim>\<open>int(round(scheduler.config.num_train_timesteps * (1 - denoising_start)))\<close>
  and the same for \<^verbatim>\<open>denoising_end\<close> are computed by the interpreter in double-precision
  floating point: the subtraction and the product are each rounded to a double before
  \<^verbatim>\<open>round\<close> is applied, so the result can differ by one from the rounding of the exact
  product. That computation is the parameter \<open>float_threshold\<close> of the model, applied to
  \<open>num_train_timesteps\<close> and to the denoising fraction (a double, that is, a real number).
\<close>

type_synonym threshold_fn = "int \<Rightarrow> real \<Rightarrow> int"

definition count_ge :: "int \<Rightarrow> real list \<Rightarrow> nat" where
  "count_ge v ts = length (filter (\<lambda>t. of_int v \<le> t) ts)"

text \<open>
  Returns the scheduler with its timesteps set, then the triple of the source:
  \<^verbatim>\<open>(num_inference_steps, timesteps, init_timestep)\<close>.
\<close>

definition timestep_device :: "scheduler \<Rightarrow> device \<Rightarrow> device" where
  "timestep_device s dev =
     (if (case cpu_only s of None \<Rightarrow> False | Some b \<Rightarrow> b) then Cpu else dev)"

definition init_scheduler ::
  "threshold_fn \<Rightarrow> scheduler \<Rightarrow> device \<Rightarrow> int \<Rightarrow> real \<Rightarrow> real \<Rightarrow>
     scheduler \<times> int \<times> real list \<times> real list" where
  "init_scheduler float_threshold s dev steps denoising_start denoising_end =
     (let dev1 = timestep_device s dev;
          ts0 = set_timesteps s steps dev1;
          s1 = s\<lparr>timesteps := ts0\<rparr>;
          t_start_val = float_threshold (num_train_timesteps s) denoising_start;
          t_start_idx = count_ge t_start_val ts0;
          ts1 = drop t_start_idx ts0;
          ts2 = (if sched_order s = 2 \<and> 0 < t_start_idx then drop 1 ts1 else ts1);
          init_timestep = take 1 ts2;
          t_end_val = float_threshold (num_train_timesteps s) denoising_end;
          t_end_idx0 = count_ge t_end_val ts2;
          t_end_idx = (if sched_order s = 2 \<and> 0 < t_end_idx0 then t_end_idx0 + 1 else t_end_idx0);
          ts3 = take t_end_idx ts2;
          n = int (length ts3);
          num_inference_steps = (if sched_order s = 2 then (n + n mod 2) div 2 else n)
      in (s1, num_inference_steps, ts3, init_timestep))"

text \<open>
  The window as the specification words it: drop from the front every timestep at or above
  the start threshold, then keep of the remainder the timesteps at or above the end threshold.
\<close>

definition ge_val :: "int \<Rightarrow> real \<Rightarrow> bool" where
  "ge_val v t = (of_int v \<le> t)"

definition window_spec :: "int \<Rightarrow> int \<Rightarrow> real list \<Rightarrow> real list" where
  "window_spec t_start_val t_end_val ts =
     filter (ge_val t_end_val) (dropWhile (ge_val t_start_val) ts)"

definition descending :: "real list \<Rightarrow> bool" where
  "descending ts = sorted_wrt (\<lambda>a b. b \<le> a) ts"

subsection \<open>The invocation context and the latents store\<close>

text \<open>
  The context of a node, as far as this module reads it: the id of the graph execution
  state, the latents store and the \<^verbatim>\<open>tiled_decode\<close> flag of the service configuration.
  The latents store is a map from names to tensors; \<^verbatim>\<open>get\<close> on a missing name raises.
  When an exception escapes a node, the model gives the error only.
\<close>

record invocation_context =
  graph_execution_state_id :: string
  stored_latents :: "string \<rightharpoonup> tensor"
  tiled_decode :: bool

definition latents_get :: "invocation_context \<Rightarrow> string option \<Rightarrow> py_error + tensor" where
  "latents_get ctx name =
     (case name of
        None \<Rightarrow> Inl KeyError
      | Some n \<Rightarrow> (case stored_latents ctx n of None \<Rightarrow> Inl KeyError | Some t \<Rightarrow> Inr t))"

definition latents_save :: "invocation_context \<Rightarrow> string \<Rightarrow> tensor \<Rightarrow> invocation_context" where
  "latents_save ctx name t = ctx\<lparr>stored_latents := (stored_latents ctx)(name \<mapsto> t)\<rparr>"

text \<open>\<^verbatim>\<open>f"{context.graph_execution_state_id}__{self.id}"\<close>\<close>

definition node_name :: "invocation_context \<Rightarrow> string \<Rightarrow> string" where
  "node_name ctx node_id = graph_execution_state_id ctx @ ''__'' @ node_id"

subsection \<open>ResizeLatentsInvocation and ScaleLatentsInvocation\<close>

datatype interp_mode = Nearest | Linear | Bilinear | Bicubic | Trilinear | Area | NearestExact

text \<open>
  \<^verbatim>\<open>torch.nn.functional.interpolate\<close> is external: a parameter taking the tensor, the
  target (an explicit size or a scale factor), the mode and the antialias flag. It can raise
  (not every mode accepts a 4-dimensional input).
\<close>

datatype interp_target = Size int int | ScaleFactor real

type_synonym interpolate_fn =
  "tensor \<Rightarrow> interp_target \<Rightarrow> interp_mode \<Rightarrow> bool \<Rightarrow> py_error + tensor"

record ResizeLatentsInvocation =
  rs_id :: string
  rs_latents :: "LatentsField option"
  rs_width :: "int option"
  rs_height :: "int option"
  rs_mode :: interp_mode
  rs_antialias :: bool

text \<open>
  \<^verbatim>\<open>self.antialias if self.mode in ["bilinear", "bicubic"] else False\<close>
\<close>

definition effective_antialias :: "interp_mode \<Rightarrow> bool \<Rightarrow> bool" where
  "effective_antialias m aa = (if m \<in> set [Bilinear, Bicubic] then aa else False)"

text \<open>
  \<open>device\<close> is what \<^verbatim>\<open>choose_torch_device()\<close> returns. A missing latents field raises
  AttributeError at \<^verbatim>\<open>self.latents.latents_name\<close>; a width or height of None raises
  TypeError at \<^verbatim>\<open>// 8\<close> (the height is evaluated first).
\<close>

definition ResizeLatents_invoke ::
  "interpolate_fn \<Rightarrow> device \<Rightarrow> invocation_context \<Rightarrow> ResizeLatentsInvocation \<Rightarrow> py_error + invocation_context \<times> LatentsOutput" where
  "ResizeLatents_invoke interpolate dev ctx self =
     (case rs_latents self of
        None \<Rightarrow> Inl AttributeError
      | Some lf \<Rightarrow>
     (case latents_get ctx (latents_name lf) of
        Inl e \<Rightarrow> Inl e
      | Inr t \<Rightarrow>
     (case rs_height self of
        None \<Rightarrow> Inl TypeError
      | Some h \<Rightarrow>
     (case rs_width self of
        None \<Rightarrow> Inl TypeError
      | Some w \<Rightarrow>
     (case interpolate (to_device dev t) (Size (h div 8) (w div 8)) (rs_mode self)
             (effective_antialias (rs_mode self) (rs_antialias self)) of
        Inl e \<Rightarrow> Inl e
      | Inr r \<Rightarrow>
          (let resized_latents = to_device Cpu r;
               name = node_name ctx (rs_id self);
               ctx' = latents_save ctx name resized_latents
           in case build_latents_output name resized_latents (seed lf) of
                Inl e \<Rightarrow> Inl e
              | Inr out \<Rightarrow> Inr (ctx', out)))))))"

record ScaleLatentsInvocation =
  sc_id :: string
  sc_latents :: "LatentsField option"
  sc_scale_factor :: real
  sc_mode :: interp_mode
  sc_antialias :: bool

definition ScaleLatents_invoke ::
  "interpolate_fn \<Rightarrow> device \<Rightarrow> invocation_context \<Rightarrow> ScaleLatentsInvocation \<Rightarrow> py_error + invocation_context \<times> LatentsOutput" where
  "ScaleLatents_invoke interpolate dev ctx self =
     (case sc_latents self of
        None \<Rightarrow> Inl AttributeError
      | Some lf \<Rightarrow>
     (case latents_get ctx (latents_name lf) of
        Inl e \<Rightarrow> Inl e
      | Inr t \<Rightarrow>
     (case interpolate (to_device dev t) (ScaleFactor (sc_scale_factor self)) (sc_mode self)
             (effective_antialias (sc_mode self) (sc_antialias self)) of
        Inl e \<Rightarrow> Inl e
      | Inr r \<Rightarrow>
          (let resized_latents = to_device Cpu r;
               name = node_name ctx (sc_id self);
               ctx' = latents_save ctx name resized_latents
           in case build_latents_output name resized_latents (seed lf) of
                Inl e \<Rightarrow> Inl e
              | Inr out \<Rightarrow> Inr (ctx', out)))))"

subsection \<open>DenoiseLatentsInvocation.invoke\<close>

text \<open>
  The fields of the node that the opening of \<^verbatim>\<open>invoke\<close> reads. The other fields
  (steps, cfg_scale, scheduler, unet, control, mask, ...) are read only by the calls into
  the pipeline.
\<close>

record DenoiseLatentsInvocation =
  dn_id :: string
  dn_noise :: "LatentsField option"
  dn_latents :: "LatentsField option"

text \<open>
  The opening of \<^verbatim>\<open>invoke\<close>, up to \<^verbatim>\<open>if seed is None: seed = 0\<close>: it returns the seed,
  the noise tensor (if any) and the initial latents. \<^verbatim>\<open>torch.zeros_like(None)\<close> raises
  TypeError.
\<close>

definition denoise_inputs ::
  "invocation_context \<Rightarrow> DenoiseLatentsInvocation \<Rightarrow> py_error + int \<times> tensor option \<times> tensor" where
  "denoise_inputs ctx self =
     (case (case dn_noise self of
              None \<Rightarrow> Inr (None, None)
            | Some nf \<Rightarrow>
                (case latents_get ctx (latents_name nf) of
                   Inl e \<Rightarrow> Inl e
                 | Inr t \<Rightarrow> Inr (Some t, seed nf))) of
        Inl e \<Rightarrow> Inl e
      | Inr (noise, seed1) \<Rightarrow>
     (case (case dn_latents self of
              Some lf \<Rightarrow>
                (case latents_get ctx (latents_name lf) of
                   Inl e \<Rightarrow> Inl e
                 | Inr t \<Rightarrow> Inr (t, (if seed1 = None then seed lf else seed1)))
            | None \<Rightarrow>
                (case noise of
                   None \<Rightarrow> Inl TypeError
                 | Some n \<Rightarrow> Inr (zeros_like n, seed1))) of
        Inl e \<Rightarrow> Inl e
      | Inr (latents0, seed2) \<Rightarrow>
          Inr ((case seed2 of None \<Rightarrow> 0 | Some v \<Rightarrow> v), noise, latents0)))"

text \<open>The seed of an optional latents field: None when the field is absent or carries no seed.\<close>

definition field_seed :: "LatentsField option \<Rightarrow> int option" where
  "field_seed f = (case f of None \<Rightarrow> None | Some lf \<Rightarrow> seed lf)"

text \<open>
  The whole node. \<open>run_pipeline\<close> stands for the calls into the external collaborators
  between the opening and the save (mask preparation, model loading, LoRA patching,
  scheduler and conditioning set-up, the pipeline's sampling routine): it takes the node,
  the seed, the noise and the initial latents and returns the result latents.
\<close>

definition DenoiseLatents_invoke ::
  "(DenoiseLatentsInvocation \<Rightarrow> int \<Rightarrow> tensor option \<Rightarrow> tensor \<Rightarrow> py_error + tensor) \<Rightarrow>
     invocation_context \<Rightarrow> DenoiseLatentsInvocation \<Rightarrow> py_error + invocation_context \<times> LatentsOutput" where
  "DenoiseLatents_invoke run_pipeline ctx self =
     (case denoise_inputs ctx self of
        Inl e \<Rightarrow> Inl e
      | Inr (sd, noise, latents0) \<Rightarrow>
     (case run_pipeline self sd noise latents0 of
        Inl e \<Rightarrow> Inl e
      | Inr r \<Rightarrow>
          (let result_latents = to_device Cpu r;
               name = node_name ctx (dn_id self);
               ctx' = latents_save ctx name result_latents
           in case build_latents_output name result_latents (Some sd) of
                Inl e \<Rightarrow> Inl e
              | Inr out \<Rightarrow> Inr (ctx', out))))"

subsection \<open>The VAE, LatentsToImageInvocation and ImageToLatentsInvocation\<close>

text \<open>
  The VAE as the two nodes read and write it: the element type of the model and of the three
  sub-modules the nodes convert separately, the device, the kind of the attention processor
  of the decoder's middle block, the tiling switch and the scaling factor of its config.
\<close>

datatype attn_processor =
    AttnProcessor | AttnProcessor2_0 | XFormersAttnProcessor
  | LoRAAttnProcessor | LoRAAttnProcessor2_0 | LoRAXFormersAttnProcessor

record vae_model =
  vae_dtype :: dtype
  vae_device :: device
  post_quant_conv_dtype :: dtype
  conv_in_dtype :: dtype
  mid_block_dtype :: dtype
  mid_attn_processor :: attn_processor
  use_tiling :: bool
  scaling_factor :: real

text \<open>\<^verbatim>\<open>vae.to(dtype=d)\<close> converts the model and every sub-module.\<close>

definition vae_to :: "dtype \<Rightarrow> vae_model \<Rightarrow> vae_model" where
  "vae_to d v = v\<lparr>vae_dtype := d, post_quant_conv_dtype := d, conv_in_dtype := d, mid_block_dtype := d\<rparr>"

definition submodules_to :: "dtype \<Rightarrow> vae_model \<Rightarrow> vae_model" where
  "submodules_to d v = v\<lparr>post_quant_conv_dtype := d, conv_in_dtype := d, mid_block_dtype := d\<rparr>"

definition use_torch_2_0_or_xformers :: "vae_model \<Rightarrow> bool" where
  "use_torch_2_0_or_xformers v =
     (mid_attn_processor v \<in>
        set [AttnProcessor2_0, XFormersAttnProcessor, LoRAXFormersAttnProcessor, LoRAAttnProcessor2_0])"

definition enable_tiling :: "vae_model \<Rightarrow> vae_model" where
  "enable_tiling v = v\<lparr>use_tiling := True\<rparr>"

definition disable_tiling :: "vae_model \<Rightarrow> vae_model" where
  "disable_tiling v = v\<lparr>use_tiling := False\<rparr>"

text \<open>
  Converting a tensor to another element type rounds its elements; the rounding
  \<open>cast\<close> is a parameter.
\<close>

definition to_dtype :: "(dtype \<Rightarrow> real \<Rightarrow> real) \<Rightarrow> dtype \<Rightarrow> tensor \<Rightarrow> tensor" where
  "to_dtype cast d t = t\<lparr>elems := map (cast d) (elems t), t_dtype := d\<rparr>"

record VaeField =
  vae_key :: string

record ImageField =
  image_name :: string

record ImageOutput =
  io_image :: ImageField
  io_width :: int
  io_height :: int

record ImageDTO =
  dto_image_name :: string
  dto_width :: int
  dto_height :: int

record LatentsToImageInvocation =
  l2i_id :: string
  l2i_is_intermediate :: bool
  l2i_latents :: "LatentsField option"
  l2i_vae :: "VaeField option"
  l2i_tiled :: bool
  l2i_fp32 :: bool
  l2i_metadata :: "(string \<times> string) list option"

text \<open>
  The external collaborators of LatentsToImageInvocation.invoke: \<open>get_vae\<close> is the model
  manager's lookup followed by entering the model's context; \<open>decode\<close> stands for the
  block under \<^verbatim>\<open>torch.inference_mode()\<close> (division by the scaling factor, the VAE's
  decode, denormalisation and conversion to an image); \<open>images_create\<close> is the image
  store's \<^verbatim>\<open>create\<close>, given the image, the node id, the session id, the intermediate
  flag and the metadata. The node returns the VAE as it has left it, with the output.
\<close>

definition LatentsToImage_invoke ::
  "(dtype \<Rightarrow> real \<Rightarrow> real) \<Rightarrow> (string \<Rightarrow> py_error + vae_model) \<Rightarrow>
     (vae_model \<Rightarrow> tensor \<Rightarrow> py_error + 'img) \<Rightarrow>
     ('img \<Rightarrow> string \<Rightarrow> string \<Rightarrow> bool \<Rightarrow> (string \<times> string) list option \<Rightarrow> py_error + ImageDTO) \<Rightarrow>
     invocation_context \<Rightarrow> LatentsToImageInvocation \<Rightarrow> py_error + vae_model \<times> ImageOutput" where
  "LatentsToImage_invoke cast get_vae decode images_create ctx self =
     (case l2i_latents self of
        None \<Rightarrow> Inl AttributeError
      | Some lf \<Rightarrow>
     (case latents_get ctx (latents_name lf) of
        Inl e \<Rightarrow> Inl e
      | Inr latents0 \<Rightarrow>
     (case l2i_vae self of
        None \<Rightarrow> Inl AttributeError
      | Some vf \<Rightarrow>
     (case get_vae (vae_key vf) of
        Inl e \<Rightarrow> Inl e
      | Inr vae0 \<Rightarrow>
          (let latents1 = to_device (vae_device vae0) latents0;
               (vae1, latents2) =
                 (if l2i_fp32 self then
                    (let v = vae_to Float32 vae0
                     in if use_torch_2_0_or_xformers v
                        then (submodules_to (t_dtype latents1) v, latents1)
                        else (v, to_dtype cast Float32 latents1))
                  else (vae_to Float16 vae0, to_dtype cast Float16 latents1));
               vae2 = (if l2i_tiled self \<or> tiled_decode ctx
                       then enable_tiling vae1 else disable_tiling vae1)
           in case decode vae2 latents2 of
                Inl e \<Rightarrow> Inl e
              | Inr pil_image \<Rightarrow>
                  (case images_create pil_image (l2i_id self) (graph_execution_state_id ctx)
                          (l2i_is_intermediate self) (l2i_metadata self) of
                     Inl e \<Rightarrow> Inl e
                   | Inr image_dto \<Rightarrow>
                       Inr (vae2,
                            \<lparr>io_image = \<lparr>image_name = dto_image_name image_dto\<rparr>,
                             io_width = dto_width image_dto,
                             io_height = dto_height image_dto\<rparr>)))))))"

record ImageToLatentsInvocation =
  i2l_id :: string
  i2l_image :: "ImageField option"
  i2l_vae :: "VaeField option"
  i2l_tiled :: bool
  i2l_fp32 :: bool

text \<open>\<^verbatim>\<open>einops.rearrange(image_tensor, "c h w -> 1 c h w")\<close> when the tensor has three dimensions.\<close>

definition add_batch_dim :: "tensor \<Rightarrow> tensor" where
  "add_batch_dim t = (if length (shape t) = 3 then t\<lparr>shape := 1 # shape t\<rparr> else t)"

text \<open>
  The external collaborators of ImageToLatentsInvocation.invoke: \<open>get_pil_image\<close> is the
  image store's lookup; \<open>image_to_tensor\<close> is the conversion to RGB followed by
  \<^verbatim>\<open>image_resized_to_grid_as_tensor\<close>; \<open>encode\<close> stands for the VAE's encode, the sample of
  the latent distribution, its conversion to the VAE's element type and the multiplication
  by the scaling factor. The node returns the VAE as it has left it, the context with the
  latents saved, and the output.
\<close>

definition ImageToLatents_invoke ::
  "(dtype \<Rightarrow> real \<Rightarrow> real) \<Rightarrow> (string \<Rightarrow> py_error + vae_model) \<Rightarrow>
     (string \<Rightarrow> py_error + 'img) \<Rightarrow> ('img \<Rightarrow> tensor) \<Rightarrow>
     (vae_model \<Rightarrow> tensor \<Rightarrow> py_error + tensor) \<Rightarrow>
     invocation_context \<Rightarrow> ImageToLatentsInvocation \<Rightarrow>
     py_error + vae_model \<times> invocation_context \<times> LatentsOutput" where
  "ImageToLatents_invoke cast get_vae get_pil_image image_to_tensor encode ctx self =
     (case i2l_image self of
        None \<Rightarrow> Inl AttributeError
      | Some imf \<Rightarrow>
     (case get_pil_image (image_name imf) of
        Inl e \<Rightarrow> Inl e
      | Inr pil_image \<Rightarrow>
     (case i2l_vae self of
        None \<Rightarrow> Inl AttributeError
      | Some vf \<Rightarrow>
     (case get_vae (vae_key vf) of
        Inl e \<Rightarrow> Inl e
      | Inr vae0 \<Rightarrow>
          (let image_tensor0 = add_batch_dim (image_to_tensor pil_image);
               orig_dtype = vae_dtype vae0;
               vae1 = (if i2l_fp32 self then
                         (let v = vae_to Float32 vae0
                          in if use_torch_2_0_or_xformers v then submodules_to orig_dtype v else v)
                       else vae_to Float16 vae0);
               vae2 = (if i2l_tiled self then enable_tiling vae1 else disable_tiling vae1);
               image_tensor1 = to_dtype cast (vae_dtype vae2) (to_device (vae_device vae2) image_tensor0)
           in case encode vae2 image_tensor1 of
                Inl e \<Rightarrow> Inl e
              | Inr latents0 \<Rightarrow>
                  (let latents1 = to_dtype cast orig_dtype latents0;
                       name = node_name ctx (i2l_id self);
                       latents2 = to_device Cpu latents1;
                       ctx' = latents_save ctx name latents2
                   in case build_latents_output name latents2 None of
                        Inl e \<Rightarrow> Inl e
                      | Inr out \<Rightarrow> Inr (vae2, ctx', out)))))))"

subsection \<open>Control data: prep_control_data\<close>

text \<open>
  ControlField and ControlNetData are declared in other modules; their fields are the ones
  this module reads and writes. The control weight (a float or a list of floats) is carried
  through unchanged, so its type is a parameter.
\<close>

record ControlNetModelField =
  model_name :: string
  base_model :: string

record 'w ControlField =
  cf_image :: ImageField
  cf_control_model :: ControlNetModelField
  cf_control_weight :: 'w
  cf_begin_step_percent :: real
  cf_end_step_percent :: real
  cf_control_mode :: string
  cf_resize_mode :: string

record controlnet_model =
  cm_name :: string
  cm_device :: device
  cm_dtype :: dtype

record 'w ControlNetData =
  cn_model :: controlnet_model
  cn_image_tensor :: tensor
  cn_weight :: 'w
  cn_begin_step_percent :: real
  cn_end_step_percent :: real
  cn_control_mode :: string
  cn_resize_mode :: string

text \<open>
  The values \<^verbatim>\<open>control_input\<close> can take: None, one ControlField, a list (whose elements
  may or may not be ControlFields), or anything else.
\<close>

datatype 'w control_item = AControlField "'w ControlField" | NotAControlField

datatype 'w control_input =
    NoControl
  | OneControl "'w ControlField"
  | ControlList "'w control_item list"
  | OtherControl

text \<open>
  The external collaborators: the model manager's lookup of a ControlNet model by name and
  base model, the image store's lookup, and \<^verbatim>\<open>prepare_control_image\<close>, given the image,
  \<^verbatim>\<open>do_classifier_free_guidance\<close>, the width, the height, the device, the element type, the
  control mode and the resize mode.
\<close>

type_synonym 'img prepare_fn =
  "'img \<Rightarrow> bool \<Rightarrow> int \<Rightarrow> int \<Rightarrow> device \<Rightarrow> dtype \<Rightarrow> string \<Rightarrow> string \<Rightarrow> py_error + tensor"

text \<open>The body of the loop over \<^verbatim>\<open>control_list\<close>, for one ControlField.\<close>

definition control_entry ::
  "(string \<Rightarrow> string \<Rightarrow> py_error + controlnet_model) \<Rightarrow> (string \<Rightarrow> py_error + 'img) \<Rightarrow>
     'img prepare_fn \<Rightarrow> bool \<Rightarrow> int \<Rightarrow> int \<Rightarrow> 'w ControlField \<Rightarrow> py_error + 'w ControlNetData" where
  "control_entry get_model get_pil_image prepare_control_image do_classifier_free_guidance
     control_width_resize control_height_resize control_info =
     (case get_model (model_name (cf_control_model control_info))
             (base_model (cf_control_model control_info)) of
        Inl e \<Rightarrow> Inl e
      | Inr control_model \<Rightarrow>
     (case get_pil_image (image_name (cf_image control_info)) of
        Inl e \<Rightarrow> Inl e
      | Inr input_image \<Rightarrow>
     (case prepare_control_image input_image do_classifier_free_guidance
             control_width_resize control_height_resize
             (cm_device control_model) (cm_dtype control_model)
             (cf_control_mode control_info) (cf_resize_mode control_info) of
        Inl e \<Rightarrow> Inl e
      | Inr control_image \<Rightarrow>
          Inr \<lparr>cn_model = control_model,
               cn_image_tensor = control_image,
               cn_weight = cf_control_weight control_info,
               cn_begin_step_percent = cf_begin_step_percent control_info,
               cn_end_step_percent = cf_end_step_percent control_info,
               cn_control_mode = cf_control_mode control_info,
               cn_resize_mode = cf_resize_mode control_info\<rparr>)))"

text \<open>
  The loop: each model is entered into the exit stack and each item appended to
  \<^verbatim>\<open>control_data\<close>. An element that is not a ControlField raises AttributeError at
  \<^verbatim>\<open>control_info.control_model\<close>.
\<close>

fun control_loop ::
  "('w ControlField \<Rightarrow> py_error + 'w ControlNetData) \<Rightarrow> 'w control_item list \<Rightarrow>
     controlnet_model list \<Rightarrow> 'w ControlNetData list \<Rightarrow>
     py_error + controlnet_model list \<times> 'w ControlNetData list" where
  "control_loop body [] exit_stack control_data = Inr (exit_stack, control_data)"
| "control_loop body (NotAControlField # rest) exit_stack control_data = Inl AttributeError"
| "control_loop body (AControlField control_info # rest) exit_stack control_data =
     (case body control_info of
        Inl e \<Rightarrow> Inl e
      | Inr control_item \<Rightarrow>
          control_loop body rest (exit_stack @ [cn_model control_item])
            (control_data @ [control_item]))"

text \<open>
  \<^verbatim>\<open>latents_shape[2]\<close> and \<^verbatim>\<open>latents_shape[3]\<close> are read first and raise IndexError on a
  shorter shape. The result is the exit stack and \<^verbatim>\<open>control_data\<close> (None or a list).
\<close>

definition prep_control_data ::
  "(string \<Rightarrow> string \<Rightarrow> py_error + controlnet_model) \<Rightarrow> (string \<Rightarrow> py_error + 'img) \<Rightarrow>
     'img prepare_fn \<Rightarrow> 'w control_input \<Rightarrow> nat list \<Rightarrow> controlnet_model list \<Rightarrow> bool \<Rightarrow>
     py_error + controlnet_model list \<times> 'w ControlNetData list option" where
  "prep_control_data get_model get_pil_image prepare_control_image control_input latents_shape
     exit_stack do_classifier_free_guidance =
     (if length latents_shape \<le> 2 then Inl IndexError
      else if length latents_shape \<le> 3 then Inl IndexError
      else
        (let control_height_resize = int (latents_shape ! 2) * 8;
             control_width_resize = int (latents_shape ! 3) * 8;
             control_list =
               (case control_input of
                  NoControl \<Rightarrow> None
                | ControlList [] \<Rightarrow> None
                | OneControl c \<Rightarrow> Some [AControlField c]
                | ControlList (AControlField c # rest) \<Rightarrow> Some (AControlField c # rest)
                | ControlList (NotAControlField # rest) \<Rightarrow> None
                | OtherControl \<Rightarrow> None)
         in case control_list of
              None \<Rightarrow> Inr (exit_stack, None)
            | Some items \<Rightarrow>
                (case control_loop
                        (control_entry get_model get_pil_image prepare_control_image
                           do_classifier_free_guidance control_width_resize control_height_resize)
                        items exit_stack [] of
                   Inl e \<Rightarrow> Inl e
                 | Inr (stack, control_data) \<Rightarrow> Inr (stack, Some control_data))))"

text \<open>
  What the specification asks of a ControlNetData made for a ControlField: it carries the
  field's weight, step percents, control mode and resize mode.
\<close>

definition carries :: "'w ControlField \<Rightarrow> 'w ControlNetData \<Rightarrow> bool" where
  "carries c d =
     (cn_weight d = cf_control_weight c
      \<and> cn_begin_step_percent d = cf_begin_step_percent c
      \<and> cn_end_step_percent d = cf_end_step_percent c
      \<and> cn_control_mode d = cf_control_mode c
      \<and> cn_resize_mode d = cf_resize_mode c)"

subsection \<open>Scheduler configuration: get_scheduler\<close>

text \<open>
  A config is a dictionary from names to values; a value can itself be a config (the entry
  \<^verbatim>\<open>"_backup"\<close> holds one).
\<close>

datatype cfgval =
    CInt int | CReal real | CStr string | CBool bool | CNone
  | CDict "string \<Rightarrow> cfgval option"

type_synonym config = "string \<Rightarrow> cfgval option"

text \<open>
  \<^verbatim>\<open>if "_backup" in scheduler_config: scheduler_config = scheduler_config["_backup"]\<close>.
  A backup that is not a dictionary raises TypeError when it is unpacked.
\<close>

definition restore_backup :: "config \<Rightarrow> py_error + config" where
  "restore_backup scheduler_config =
     (case scheduler_config ''_backup'' of
        None \<Rightarrow> Inr scheduler_config
      | Some (CDict b) \<Rightarrow> Inr b
      | Some _ \<Rightarrow> Inl TypeError)"

text \<open>
  \<^verbatim>\<open>{**scheduler_config, **scheduler_extra_config, "_backup": scheduler_config}\<close>
\<close>

definition merge_config :: "config \<Rightarrow> config \<Rightarrow> config" where
  "merge_config scheduler_config scheduler_extra_config =
     (scheduler_config ++ scheduler_extra_config)(''_backup'' \<mapsto> CDict scheduler_config)"

text \<open>
  \<open>SCHEDULER_MAP\<close> is declared in another module and is a parameter here, as are the
  model manager's lookup (giving the config of the original scheduler), the scheduler
  classes' \<^verbatim>\<open>from_config\<close>, and the test and the setting of the attribute
  \<^verbatim>\<open>uses_inpainting_model\<close>. \<^verbatim>\<open>SCHEDULER_MAP["ddim"]\<close> is evaluated before the lookup of the
  name, and raises KeyError when the map has no such entry.
\<close>

definition get_scheduler ::
  "(string \<Rightarrow> ('cls \<times> config) option) \<Rightarrow> ('info \<Rightarrow> py_error + config) \<Rightarrow>
     ('cls \<Rightarrow> config \<Rightarrow> py_error + 's) \<Rightarrow> ('s \<Rightarrow> bool) \<Rightarrow> ('s \<Rightarrow> 's) \<Rightarrow>
     'info \<Rightarrow> string \<Rightarrow> py_error + 's" where
  "get_scheduler SCHEDULER_MAP get_model from_config has_uses_inpainting_model
     set_uses_inpainting_model scheduler_info scheduler_name =
     (case SCHEDULER_MAP ''ddim'' of
        None \<Rightarrow> Inl KeyError
      | Some ddim \<Rightarrow>
          (let (scheduler_class, scheduler_extra_config) =
                 (case SCHEDULER_MAP scheduler_name of None \<Rightarrow> ddim | Some entry \<Rightarrow> entry)
           in case get_model scheduler_info of
                Inl e \<Rightarrow> Inl e
              | Inr orig_config \<Rightarrow>
             (case restore_backup orig_config of
                Inl e \<Rightarrow> Inl e
              | Inr scheduler_config \<Rightarrow>
             (case from_config scheduler_class
                     (merge_config scheduler_config scheduler_extra_config) of
                Inl e \<Rightarrow> Inl e
              | Inr scheduler \<Rightarrow>
                  Inr (if \<not> has_uses_inpainting_model scheduler
                       then set_uses_inpainting_model scheduler else scheduler)))))"

subsection \<open>Example values\<close>

text \<open>
  A stand-in for the threshold computation: Python's \<^verbatim>\<open>round\<close> (to the nearest integer,
  ties to the even one) applied to the exact product. It gives what the interpreter gives
  whenever \<open>1 - d\<close> and the product are doubles themselves, as they are in the examples
  below (\<open>d\<close> among 0, 1/2, 3/4 and 1, with 1000 or 10 training timesteps).
\<close>

definition py_round :: "real \<Rightarrow> int" where
  "py_round x =
     (let f = \<lfloor>x\<rfloor>; d = x - of_int f
      in if d < 1 / 2 then f else if 1 / 2 < d then f + 1 else if even f then f else f + 1)"

definition exact_threshold :: threshold_fn where
  "exact_threshold n d = py_round (of_int n * (1 - d))"

text \<open>Example schedulers: a first-order one, a second-order one, and one whose timesteps rise.\<close>

definition quarter_timesteps :: "int \<Rightarrow> device \<Rightarrow> real list" where
  "quarter_timesteps n d = [750, 500, 250, 0]"

definition quarter_scheduler :: scheduler where
  "quarter_scheduler =
     \<lparr>sched_order = 1, cpu_only = None, num_train_timesteps = 1000,
      set_timesteps = quarter_timesteps, timesteps = []\<rparr>"

definition heun_timesteps :: "int \<Rightarrow> device \<Rightarrow> real list" where
  "heun_timesteps n d = [500, 0, 0]"

definition heun_scheduler :: scheduler where
  "heun_scheduler =
     \<lparr>sched_order = 2, cpu_only = Some True, num_train_timesteps = 1000,
      set_timesteps = heun_timesteps, timesteps = []\<rparr>"

definition rising_timesteps :: "int \<Rightarrow> device \<Rightarrow> real list" where
  "rising_timesteps n d = [1, 10]"

definition rising_scheduler :: scheduler where
  "rising_scheduler =
     \<lparr>sched_order = 1, cpu_only = None, num_train_timesteps = 10,
      set_timesteps = rising_timesteps, timesteps = []\<rparr>"

definition sample_tensor :: tensor where
  "sample_tensor =
     \<lparr>shape = [1, 4, 2, 3], elems = replicate 24 (1 / 2), t_dtype = Float16, t_device = Cpu\<rparr>"

definition sample_context :: invocation_context where
  "sample_context =
     \<lparr>graph_execution_state_id = ''s1'',
      stored_latents = [''noise'' \<mapsto> sample_tensor, ''base'' \<mapsto> sample_tensor],
      tiled_decode = False\<rparr>"

text \<open>
  A stand-in for interpolate whose result depends on every argument, the antialias flag
  included: an explicit size replaces the last two dimensions, a scale factor multiplies
  them, and the elements are all 1 with antialiasing and all 0 without.
\<close>

definition sample_interpolate :: interpolate_fn where
  "sample_interpolate t target m aa =
     (let dims = (case target of
                    Size h w \<Rightarrow> take 2 (shape t) @ [nat h, nat w]
                  | ScaleFactor f \<Rightarrow> take 2 (shape t) @ map (\<lambda>d. nat \<lfloor>f * real d\<rfloor>) (drop 2 (shape t)))
      in if m = Linear \<or> m = Trilinear then Inl TypeError
         else Inr (t\<lparr>shape := dims, elems := replicate (prod_list dims) (if aa then 1 else 0)\<rparr>))"

definition sample_resize :: ResizeLatentsInvocation where
  "sample_resize =
     \<lparr>rs_id = ''n1'', rs_latents = Some \<lparr>latents_name = Some ''base'', seed = Some 7\<rparr>,
      rs_width = Some 20, rs_height = Some 9, rs_mode = Nearest, rs_antialias = True\<rparr>"

definition sample_scale :: ScaleLatentsInvocation where
  "sample_scale =
     \<lparr>sc_id = ''n2'', sc_latents = Some \<lparr>latents_name = Some ''base'', seed = Some 7\<rparr>,
      sc_scale_factor = 1 / 2, sc_mode = Area, sc_antialias = True\<rparr>"

text \<open>A denoise node whose noise field has no seed while its latents field has one.\<close>

definition seedless_noise_denoise :: DenoiseLatentsInvocation where
  "seedless_noise_denoise =
     \<lparr>dn_id = ''n3'',
      dn_noise = Some \<lparr>latents_name = Some ''noise'', seed = None\<rparr>,
      dn_latents = Some \<lparr>latents_name = Some ''base'', seed = Some 7\<rparr>\<rparr>"

definition noise_only_denoise :: DenoiseLatentsInvocation where
  "noise_only_denoise =
     \<lparr>dn_id = ''n4'',
      dn_noise = Some \<lparr>latents_name = Some ''noise'', seed = Some 11\<rparr>,
      dn_latents = None\<rparr>"

text \<open>
  Stand-ins for the collaborators of the two image nodes. An image is its pixel size
  (width, height); the decoder reports 8 pixels per latent cell and the encoder the reverse.
\<close>

definition sample_cast :: "dtype \<Rightarrow> real \<Rightarrow> real" where
  "sample_cast d x = x"

definition sample_vae :: vae_model where
  "sample_vae =
     \<lparr>vae_dtype = Float16, vae_device = Cuda, post_quant_conv_dtype = Float16,
      conv_in_dtype = Float16, mid_block_dtype = Float16,
      mid_attn_processor = AttnProcessor2_0, use_tiling = True, scaling_factor = 1 / 8\<rparr>"

definition sample_get_vae :: "string \<Rightarrow> py_error + vae_model" where
  "sample_get_vae k = (if k = ''vae'' then Inr sample_vae else Inl KeyError)"

definition sample_decode :: "vae_model \<Rightarrow> tensor \<Rightarrow> py_error + nat \<times> nat" where
  "sample_decode v t =
     (if length (shape t) = 4 then Inr (8 * (shape t ! 3), 8 * (shape t ! 2)) else Inl TypeError)"

definition sample_images_create ::
  "nat \<times> nat \<Rightarrow> string \<Rightarrow> string \<Rightarrow> bool \<Rightarrow> (string \<times> string) list option \<Rightarrow> py_error + ImageDTO" where
  "sample_images_create img node_id session_id intermediate meta =
     Inr \<lparr>dto_image_name = session_id @ ''_'' @ node_id, dto_width = int (fst img),
          dto_height = int (snd img)\<rparr>"

definition sample_get_pil_image :: "string \<Rightarrow> py_error + nat \<times> nat" where
  "sample_get_pil_image n = (if n = ''photo'' then Inr (24, 16) else Inl KeyError)"

definition sample_image_to_tensor :: "nat \<times> nat \<Rightarrow> tensor" where
  "sample_image_to_tensor img =
     \<lparr>shape = [3, snd img, fst img], elems = replicate (3 * snd img * fst img) 0,
      t_dtype = Float32, t_device = Cpu\<rparr>"

definition sample_encode :: "vae_model \<Rightarrow> tensor \<Rightarrow> py_error + tensor" where
  "sample_encode v t =
     (if length (shape t) = 4
      then Inr (t\<lparr>shape := [shape t ! 0, 4, shape t ! 2 div 8, shape t ! 3 div 8],
                  elems := replicate (shape t ! 0 * 4 * (shape t ! 2 div 8) * (shape t ! 3 div 8))
                             (scaling_factor v)\<rparr>)
      else Inl TypeError)"

text \<open>A context whose configuration asks for tiled decoding, and two nodes that do not.\<close>

definition tiled_context :: invocation_context where
  "tiled_context =
     \<lparr>graph_execution_state_id = ''s1'',
      stored_latents = [''base'' \<mapsto> sample_tensor],
      tiled_decode = True\<rparr>"

definition sample_l2i :: LatentsToImageInvocation where
  "sample_l2i =
     \<lparr>l2i_id = ''n5'', l2i_is_intermediate = False,
      l2i_latents = Some \<lparr>latents_name = Some ''base'', seed = Some 7\<rparr>,
      l2i_vae = Some \<lparr>vae_key = ''vae''\<rparr>, l2i_tiled = False, l2i_fp32 = False,
      l2i_metadata = None\<rparr>"

definition sample_i2l :: ImageToLatentsInvocation where
  "sample_i2l =
     \<lparr>i2l_id = ''n6'', i2l_image = Some \<lparr>image_name = ''photo''\<rparr>,
      i2l_vae = Some \<lparr>vae_key = ''vae''\<rparr>, i2l_tiled = False, i2l_fp32 = False\<rparr>"

text \<open>
  Stand-ins for the collaborators of prep_control_data. The prepared control image records
  the width and height it was asked for in its shape (batch, 3, height, width).
\<close>

definition sample_get_model :: "string \<Rightarrow> string \<Rightarrow> py_error + controlnet_model" where
  "sample_get_model name base =
     (if base = ''sd-1'' then Inr \<lparr>cm_name = name, cm_device = Cuda, cm_dtype = Float16\<rparr>
      else Inl KeyError)"

definition sample_prepare :: "(nat \<times> nat) prepare_fn" where
  "sample_prepare img cfg w h dev dt cmode rmode =
     Inr \<lparr>shape = [if cfg then 2 else 1, 3, nat h, nat w],
          elems = replicate ((if cfg then 2 else 1) * 3 * nat h * nat w) 0,
          t_dtype = dt, t_device = dev\<rparr>"

definition canny_field :: "real ControlField" where
  "canny_field =
     \<lparr>cf_image = \<lparr>image_name = ''photo''\<rparr>,
      cf_control_model = \<lparr>model_name = ''canny'', base_model = ''sd-1''\<rparr>,
      cf_control_weight = 1, cf_begin_step_percent = 0, cf_end_step_percent = 1 / 2,
      cf_control_mode = ''balanced'', cf_resize_mode = ''just_resize''\<rparr>"

definition depth_field :: "real ControlField" where
  "depth_field =
     \<lparr>cf_image = \<lparr>image_name = ''photo''\<rparr>,
      cf_control_model = \<lparr>model_name = ''depth'', base_model = ''sd-1''\<rparr>,
      cf_control_weight = 3 / 4, cf_begin_step_percent = 1 / 4, cf_end_step_percent = 1,
      cf_control_mode = ''more_control'', cf_resize_mode = ''crop_resize''\<rparr>"

definition canny_data :: "real ControlNetData" where
  "canny_data =
     \<lparr>cn_model = \<lparr>cm_name = ''canny'', cm_device = Cuda, cm_dtype = Float16\<rparr>,
      cn_image_tensor =
        \<lparr>shape = [2, 3, 16, 24], elems = replicate 2304 0, t_dtype = Float16, t_device = Cuda\<rparr>,
      cn_weight = 1, cn_begin_step_percent = 0, cn_end_step_percent = 1 / 2,
      cn_control_mode = ''balanced'', cn_resize_mode = ''just_resize''\<rparr>"

definition depth_data :: "real ControlNetData" where
  "depth_data =
     \<lparr>cn_model = \<lparr>cm_name = ''depth'', cm_device = Cuda, cm_dtype = Float16\<rparr>,
      cn_image_tensor =
        \<lparr>shape = [2, 3, 16, 24], elems = replicate 2304 0, t_dtype = Float16, t_device = Cuda\<rparr>,
      cn_weight = 3 / 4, cn_begin_step_percent = 1 / 4, cn_end_step_percent = 1,
      cn_control_mode = ''more_control'', cn_resize_mode = ''crop_resize''\<rparr>"

text \<open>
  Stand-ins for the collaborators of get_scheduler: a map with two entries, a stored config
  that has been merged before (it holds a backup), and a \<open>from_config\<close> that records the
  class, three entries of the config it is given and whether the attribute is set.
\<close>

definition sample_scheduler_map :: "string \<Rightarrow> (string \<times> config) option" where
  "sample_scheduler_map =
     [''ddim'' \<mapsto> (''DDIMScheduler'', Map.empty),
      ''euler_k'' \<mapsto> (''EulerDiscreteScheduler'', [''use_karras_sigmas'' \<mapsto> CBool True])]"

definition sample_base_config :: config where
  "sample_base_config = [''num_train_timesteps'' \<mapsto> CInt 1000]"

definition sample_stored_config :: config where
  "sample_stored_config =
     [''num_train_timesteps'' \<mapsto> CInt 1000, ''use_karras_sigmas'' \<mapsto> CBool True,
      ''_backup'' \<mapsto> CDict sample_base_config]"

definition sample_get_config :: "string \<Rightarrow> py_error + config" where
  "sample_get_config info = (if info = ''sched'' then Inr sample_stored_config else Inl KeyError)"

definition sample_from_config ::
  "string \<Rightarrow> config \<Rightarrow> py_error + string \<times> cfgval option \<times> cfgval option \<times> bool \<times> bool" where
  "sample_from_config cls cfg =
     Inr (cls, cfg ''num_train_timesteps'', cfg ''use_karras_sigmas'',
          cfg ''_backup'' \<noteq> None, False)"

definition sample_has_attr :: "string \<times> cfgval option \<times> cfgval option \<times> bool \<times> bool \<Rightarrow> bool" where
  "sample_has_attr s = snd (snd (snd (snd s)))"

definition sample_set_attr ::
  "string \<times> cfgval option \<times> cfgval option \<times> bool \<times> bool \<Rightarrow>
     string \<times> cfgval option \<times> cfgval option \<times> bool \<times> bool" where
  "sample_set_attr s = (fst s, fst (snd s), fst (snd (snd s)), fst (snd (snd (snd s))), True)"

section \<open>Properties\<close>

subsection \<open>Counting and trimming on a descending list\<close>

lemma count_ge_filter: "count_ge v ts = length (filter (ge_val v) ts)"
  by (simp add: count_ge_def ge_val_def[abs_def])

lemma desc_below:
  "sorted_wrt (\<lambda>a b. b \<le> a) (x # xs) \<Longrightarrow> \<not> ge_val v x \<Longrightarrow> filter (ge_val v) xs = []"
  by (auto simp: ge_val_def filter_empty_conv)

lemma drop_count_desc:
  "sorted_wrt (\<lambda>a b. b \<le> a) ts \<Longrightarrow> drop (count_ge v ts) ts = dropWhile (ge_val v) ts"
proof (induction ts)
  case Nil
  then show ?case by (simp add: count_ge_filter)
next
  case (Cons x xs)
  show ?case
  proof (cases "ge_val v x")
    case True
    with Cons show ?thesis by (simp add: count_ge_filter)
  next
    case False
    with Cons.prems have "filter (ge_val v) xs = []" by (rule desc_below)
    with False show ?thesis by (simp add: count_ge_filter)
  qed
qed

lemma take_count_desc:
  "sorted_wrt (\<lambda>a b. b \<le> a) ts \<Longrightarrow> take (count_ge v ts) ts = filter (ge_val v) ts"
proof (induction ts)
  case Nil
  then show ?case by (simp add: count_ge_filter)
next
  case (Cons x xs)
  show ?case
  proof (cases "ge_val v x")
    case True
    with Cons show ?thesis by (simp add: count_ge_filter)
  next
    case False
    with Cons.prems have "filter (ge_val v) xs = []" by (rule desc_below)
    with False show ?thesis by (simp add: count_ge_filter)
  qed
qed

lemma filter_takeWhile_desc:
  "sorted_wrt (\<lambda>a b. b \<le> a) ts \<Longrightarrow> filter (ge_val v) ts = takeWhile (ge_val v) ts"
proof (induction ts)
  case Nil
  then show ?case by simp
next
  case (Cons x xs)
  show ?case
  proof (cases "ge_val v x")
    case True
    with Cons show ?thesis by simp
  next
    case False
    with Cons.prems have "filter (ge_val v) xs = []" by (rule desc_below)
    with False show ?thesis by simp
  qed
qed

lemma desc_dropWhile:
  "sorted_wrt (\<lambda>a b. b \<le> a) ts \<Longrightarrow> sorted_wrt (\<lambda>a b. b \<le> a) (dropWhile P ts)"
  by (induction ts) auto

lemma init_scheduler_steps:
  assumes "ts0 = set_timesteps s steps (timestep_device s dev)"
    and "a = count_ge (float_threshold (num_train_timesteps s) ds) ts0"
    and "ts2 = (if sched_order s = 2 \<and> 0 < a then drop 1 (drop a ts0) else drop a ts0)"
    and "b = count_ge (float_threshold (num_train_timesteps s) de) ts2"
    and "ts3 = take (if sched_order s = 2 \<and> 0 < b then b + 1 else b) ts2"
  shows "init_scheduler float_threshold s dev steps ds de =
           (s\<lparr>timesteps := ts0\<rparr>,
            (if sched_order s = 2 then (int (length ts3) + int (length ts3) mod 2) div 2
             else int (length ts3)),
            ts3, take 1 ts2)"
  unfolding assms init_scheduler_def Let_def by (rule refl)

lemma py_round_ties: "py_round (5 / 2) = 2 \<and> py_round (7 / 2) = 4 \<and> py_round (- 5 / 2) = - 2"
  by (simp add: py_round_def Let_def)

lemma window_desc:
  assumes "sorted_wrt (\<lambda>a b. b \<le> a) ts"
  shows "take (count_ge e (drop (count_ge v ts) ts)) (drop (count_ge v ts) ts) = window_spec v e ts"
    and "window_spec v e ts = takeWhile (ge_val e) (dropWhile (ge_val v) ts)"
    and "drop (count_ge v ts) ts = dropWhile (ge_val v) ts"
proof -
  have d2: "sorted_wrt (\<lambda>a b. b \<le> a) (dropWhile (ge_val v) ts)"
    using assms by (rule desc_dropWhile)
  show dr: "drop (count_ge v ts) ts = dropWhile (ge_val v) ts"
    using assms by (rule drop_count_desc)
  show "take (count_ge e (drop (count_ge v ts) ts)) (drop (count_ge v ts) ts) = window_spec v e ts"
    unfolding dr window_spec_def using d2 by (rule take_count_desc)
  show "window_spec v e ts = takeWhile (ge_val e) (dropWhile (ge_val v) ts)"
    unfolding window_spec_def using d2 by (rule filter_takeWhile_desc)
qed

subsection \<open>Concrete schedulers\<close>

lemma thr_quarter:
  "exact_threshold (num_train_timesteps quarter_scheduler) (1 / 2) = 500"
  "exact_threshold (num_train_timesteps quarter_scheduler) (3 / 4) = 250"
  by (simp_all add: exact_threshold_def quarter_scheduler_def py_round_def Let_def)

lemma sel_quarter: "set_timesteps quarter_scheduler n d = [750, 500, 250, 0]"
  "sched_order quarter_scheduler = 1"
  by (simp_all add: quarter_scheduler_def quarter_timesteps_def)

lemma thr_rising:
  "exact_threshold (num_train_timesteps rising_scheduler) (1 / 2) = 5"
  "exact_threshold (num_train_timesteps rising_scheduler) 1 = 0"
  by (simp_all add: exact_threshold_def rising_scheduler_def py_round_def Let_def)

lemma sel_rising: "set_timesteps rising_scheduler n d = [1, 10]"
  "sched_order rising_scheduler = 1"
  by (simp_all add: rising_scheduler_def rising_timesteps_def)

lemma thr_heun:
  "exact_threshold (num_train_timesteps heun_scheduler) 0 = 1000"
  "exact_threshold (num_train_timesteps heun_scheduler) 1 = 0"
  by (simp_all add: exact_threshold_def heun_scheduler_def py_round_def Let_def)

lemma sel_heun: "set_timesteps heun_scheduler n d = [500, 0, 0]"
  "sched_order heun_scheduler = 2"
  by (simp_all add: heun_scheduler_def heun_timesteps_def)

lemma heun_run:
  "init_scheduler exact_threshold heun_scheduler Cuda 2 0 1 =
     (heun_scheduler\<lparr>timesteps := [500, 0, 0]\<rparr>, 2, [500, 0, 0], [500])"
  by (subst init_scheduler_steps[where ?ts0.0 = "[500, 0, 0]" and a = 0
        and ?ts2.0 = "[500, 0, 0]" and b = 3 and ?ts3.0 = "[500, 0, 0]"])
     (simp_all add: sel_heun thr_heun count_ge_def)

subsection \<open>C1: the timestep window of a first-order scheduler\<close>

text \<open>
  C1 (as amended). For a first-order scheduler whose timestep list is in non-increasing
  order, init_scheduler returns the window the specification describes: the timesteps at or
  above the start threshold are dropped from the front, of the remainder exactly those at or
  above the end threshold are kept, in their original order, and init_timestep is the first
  element, if any, of the start-trimmed list. The step count is the length of the window.
  The thresholds are the values \<open>t_start_val\<close> and \<open>t_end_val\<close> as the code computes them,
  whatever the floating-point computation \<open>float_threshold\<close> gives.
\<close>

theorem init_scheduler_window_descending:
  assumes "sched_order s = 1"
    and "descending (set_timesteps s steps (timestep_device s dev))"
  shows "init_scheduler float_threshold s dev steps ds de =
           (s\<lparr>timesteps := set_timesteps s steps (timestep_device s dev)\<rparr>,
            int (length (window_spec (float_threshold (num_train_timesteps s) ds)
                           (float_threshold (num_train_timesteps s) de)
                           (set_timesteps s steps (timestep_device s dev)))),
            window_spec (float_threshold (num_train_timesteps s) ds)
              (float_threshold (num_train_timesteps s) de)
              (set_timesteps s steps (timestep_device s dev)),
            take 1 (dropWhile (ge_val (float_threshold (num_train_timesteps s) ds))
                      (set_timesteps s steps (timestep_device s dev))))"
proof -
  let ?ts = "set_timesteps s steps (timestep_device s dev)"
  let ?v = "float_threshold (num_train_timesteps s) ds"
  let ?e = "float_threshold (num_train_timesteps s) de"
  have d: "sorted_wrt (\<lambda>a b. b \<le> a) ?ts"
    using assms(2) by (simp add: descending_def)
  have "init_scheduler float_threshold s dev steps ds de =
          (s\<lparr>timesteps := ?ts\<rparr>,
           int (length (take (count_ge ?e (drop (count_ge ?v ?ts) ?ts))
                          (drop (count_ge ?v ?ts) ?ts))),
           take (count_ge ?e (drop (count_ge ?v ?ts) ?ts)) (drop (count_ge ?v ?ts) ?ts),
           take 1 (drop (count_ge ?v ?ts) ?ts))"
    by (subst init_scheduler_steps[OF refl refl refl refl refl]) (simp add: assms(1))
  then have "init_scheduler float_threshold s dev steps ds de =
          (s\<lparr>timesteps := ?ts\<rparr>,
           int (length (window_spec ?v ?e ?ts)),
           window_spec ?v ?e ?ts,
           take 1 (drop (count_ge ?v ?ts) ?ts))"
    by (simp only: window_desc(1)[OF d])
  then show ?thesis
    by (simp only: window_desc(3)[OF d])
qed

theorem init_scheduler_window_descending_witness:
  "sched_order quarter_scheduler = 1
   \<and> descending (set_timesteps quarter_scheduler 4 (timestep_device quarter_scheduler Cuda))
   \<and> init_scheduler exact_threshold quarter_scheduler Cuda 4 (1 / 2) (3 / 4) =
       (quarter_scheduler\<lparr>timesteps := [750, 500, 250, 0]\<rparr>, 1, [250], [250])"
proof -
  have o: "sched_order quarter_scheduler = 1" by (rule sel_quarter(2))
  have d: "descending (set_timesteps quarter_scheduler 4 (timestep_device quarter_scheduler Cuda))"
    by (simp add: sel_quarter descending_def)
  show ?thesis
    using init_scheduler_window_descending[OF o d, of exact_threshold "1 / 2" "3 / 4"] o d
    by (simp add: sel_quarter thr_quarter window_spec_def ge_val_def)
qed

text \<open>
  C1 as stated, for every first-order scheduler, fails: the code counts the timesteps at or
  above a threshold and cuts at that index. On the rising list \<open>[1, 10]\<close> with 10 training
  timesteps, \<open>denoising_start = 0.5\<close> and \<open>denoising_end = 1\<close>, the thresholds are 5 and 0
  (exactly, in floating point too) and the count of timesteps at or above 5 is 1, so the
  code drops the 1 and keeps the 10, while no timestep at the front is at or above 5 and the
  described window is the whole list.
\<close>

theorem init_scheduler_window_counterexample:
  "sched_order rising_scheduler = 1
   \<and> init_scheduler exact_threshold rising_scheduler Cpu 2 (1 / 2) 1 =
       (rising_scheduler\<lparr>timesteps := [1, 10]\<rparr>, 1, [10], [10])
   \<and> exact_threshold (num_train_timesteps rising_scheduler) (1 / 2) = 5
   \<and> exact_threshold (num_train_timesteps rising_scheduler) 1 = 0
   \<and> window_spec 5 0 [1, 10] = [1, 10]
   \<and> take 1 (dropWhile (ge_val 5) [1, 10]) = [1]"
proof -
  have e: "init_scheduler exact_threshold rising_scheduler Cpu 2 (1 / 2) 1 =
       (rising_scheduler\<lparr>timesteps := [1, 10]\<rparr>, 1, [10], [10])"
    by (subst init_scheduler_steps[where ?ts0.0 = "[1, 10]" and a = 1 and ?ts2.0 = "[10]" and b = 1
          and ?ts3.0 = "[10]"])
       (simp_all add: sel_rising thr_rising count_ge_def)
  have w: "window_spec 5 0 [1, 10] = [1, 10]" "take 1 (dropWhile (ge_val 5) [1, 10]) = [1]"
    by (simp_all add: window_spec_def ge_val_def)
  show ?thesis
    using e w by (simp add: sel_rising thr_rising)
qed

subsection \<open>C3: the step count\<close>

text \<open>
  C3. The returned num_inference_steps is the length of the returned timestep list when
  the scheduler's order is not 2, and \<open>(len + len mod 2) div 2\<close>, the ceiling of half the
  length, when the order is 2.
\<close>

theorem init_scheduler_step_count:
  assumes "init_scheduler float_threshold s dev steps ds de = (s', n, w, i)"
  shows "(sched_order s \<noteq> 2 \<longrightarrow> n = int (length w))
       \<and> (sched_order s = 2 \<longrightarrow>
            n = (int (length w) + int (length w) mod 2) div 2 \<and> n = \<lceil>real (length w) / 2\<rceil>)"
proof -
  have c: "(int k + int k mod 2) div 2 = \<lceil>real k / 2\<rceil>" for k :: nat
  proof -
    have "\<lceil>real k / 2\<rceil> = \<lceil>real_of_int (int k) / real_of_int 2\<rceil>" by simp
    also have "\<dots> = - ((- int k) div 2)" by (simp only: ceiling_divide_eq_div)
    also have "\<dots> = (int k + int k mod 2) div 2" by presburger
    finally show ?thesis by simp
  qed
  obtain ts3 ts2 where
    "init_scheduler float_threshold s dev steps ds de =
       (s\<lparr>timesteps := set_timesteps s steps (timestep_device s dev)\<rparr>,
        (if sched_order s = 2 then (int (length ts3) + int (length ts3) mod 2) div 2
         else int (length ts3)),
        ts3, take 1 ts2)"
    using init_scheduler_steps[OF refl refl refl refl refl] by blast
  with assms have "w = ts3"
    and "n = (if sched_order s = 2 then (int (length ts3) + int (length ts3) mod 2) div 2
              else int (length ts3))"
    by simp_all
  then show ?thesis
    by (simp add: c)
qed

theorem init_scheduler_step_count_witness:
  "init_scheduler exact_threshold heun_scheduler Cuda 2 0 1 =
     (heun_scheduler\<lparr>timesteps := [500, 0, 0]\<rparr>, 2, [500, 0, 0], [500])
   \<and> sched_order heun_scheduler = 2
   \<and> (2::int) = (int (length [500, 0, 0 :: real]) + int (length [500, 0, 0 :: real]) mod 2) div 2
   \<and> (2::int) = \<lceil>real (length [500, 0, 0 :: real]) / 2\<rceil>"
  using init_scheduler_step_count[OF heun_run] heun_run
  by (simp add: sel_heun)

subsection \<open>C8: the pixel size reported for a latents tensor\<close>

text \<open>
  C8. build_latents_output succeeds on every tensor of at least four dimensions, and every
  LatentsOutput it produces reports a width of 8 times the tensor's size in dimension 3 and
  a height of 8 times its size in dimension 2.
\<close>

theorem build_latents_output_dims:
  "(4 \<le> length (shape t) \<longrightarrow> (\<exists>out. build_latents_output name t sd = Inr out))
   \<and> (\<forall>out. build_latents_output name t sd = Inr out \<longrightarrow>
         width out = 8 * int (shape t ! 3) \<and> height out = 8 * int (shape t ! 2)
         \<and> 4 \<le> length (shape t))"
  by (auto simp: build_latents_output_def size_at_def split: if_splits sum.splits)

theorem build_latents_output_dims_witness:
  "4 \<le> length (shape sample_tensor)
   \<and> build_latents_output ''s1__n1'' sample_tensor (Some 7) =
       Inr \<lparr>latents = \<lparr>latents_name = Some ''s1__n1'', seed = Some 7\<rparr>, width = 24, height = 16\<rparr>"
  using build_latents_output_dims[of sample_tensor "''s1__n1''" "Some 7"]
  by (simp add: build_latents_output_def size_at_def sample_tensor_def)

subsection \<open>Concrete contexts and nodes\<close>

lemma sample_base: "latents_get sample_context (Some ''base'') = Inr sample_tensor"
  "latents_get sample_context (Some ''noise'') = Inr sample_tensor"
  by (simp_all add: latents_get_def sample_context_def)

lemma sample_resize_interp:
  "sample_interpolate (to_device Cuda sample_tensor) (Size 1 2) Nearest False =
     Inr \<lparr>shape = [1, 4, 1, 2], elems = replicate 8 0, t_dtype = Float16, t_device = Cuda\<rparr>"
  by (simp add: sample_interpolate_def to_device_def sample_tensor_def)

subsection \<open>C6: resizing latents\<close>

text \<open>
  C6. On an input latents tensor found in the store and integer width and height,
  ResizeLatentsInvocation.invoke calls interpolate on the tensor with the target size
  \<open>(height div 8, width div 8)\<close> (floor division) and the selected mode; when that call
  returns a tensor (of at least four dimensions, as build_latents_output needs), the node
  saves it, moved to the CPU, under the name \<open>graph_execution_state_id @ "__" @ id\<close> and
  returns a LatentsOutput with that name and the seed of the input latents field.
\<close>

theorem ResizeLatents_invoke_spec:
  assumes "rs_latents self = Some lf"
    and "latents_get ctx (latents_name lf) = Inr t"
    and "rs_height self = Some h"
    and "rs_width self = Some w"
    and "interpolate (to_device dev t) (Size (h div 8) (w div 8)) (rs_mode self)
           (effective_antialias (rs_mode self) (rs_antialias self)) = Inr r"
    and "4 \<le> length (shape r)"
  shows "ResizeLatents_invoke interpolate dev ctx self =
           Inr (latents_save ctx (graph_execution_state_id ctx @ ''__'' @ rs_id self) (to_device Cpu r),
                \<lparr>latents = \<lparr>latents_name = Some (graph_execution_state_id ctx @ ''__'' @ rs_id self),
                             seed = seed lf\<rparr>,
                 width = int (shape r ! 3) * 8, height = int (shape r ! 2) * 8\<rparr>)"
  using assms
  by (simp add: ResizeLatents_invoke_def node_name_def build_latents_output_def size_at_def
      to_device_def Let_def)

theorem ResizeLatents_invoke_spec_witness:
  "ResizeLatents_invoke sample_interpolate Cuda sample_context sample_resize =
     Inr (latents_save sample_context ''s1__n1''
            \<lparr>shape = [1, 4, 1, 2], elems = replicate 8 0, t_dtype = Float16, t_device = Cpu\<rparr>,
          \<lparr>latents = \<lparr>latents_name = Some ''s1__n1'', seed = Some 7\<rparr>, width = 16, height = 8\<rparr>)"
proof -
  have a1: "rs_latents sample_resize = Some \<lparr>latents_name = Some ''base'', seed = Some 7\<rparr>"
    and a3: "rs_height sample_resize = Some 9"
    and a4: "rs_width sample_resize = Some 20"
    by (simp_all add: sample_resize_def)
  have a2: "latents_get sample_context (latents_name \<lparr>latents_name = Some ''base'', seed = Some 7\<rparr>)
              = Inr sample_tensor"
    by (simp add: sample_base)
  have a5: "sample_interpolate (to_device Cuda sample_tensor) (Size (9 div 8) (20 div 8))
              (rs_mode sample_resize)
              (effective_antialias (rs_mode sample_resize) (rs_antialias sample_resize)) =
            Inr \<lparr>shape = [1, 4, 1, 2], elems = replicate 8 0, t_dtype = Float16, t_device = Cuda\<rparr>"
    by (simp add: sample_resize_def effective_antialias_def sample_resize_interp)
  have a6: "4 \<le> length (shape \<lparr>shape = [1, 4, 1, 2], elems = replicate 8 (0::real), t_dtype = Float16,
              t_device = Cuda\<rparr>)"
    by simp
  show ?thesis
    using ResizeLatents_invoke_spec[where interpolate = sample_interpolate and dev = Cuda
        and ctx = sample_context and self = sample_resize and h = 9 and w = 20
        and t = sample_tensor, OF a1 a2 a3 a4 a5 a6]
    by (simp add: sample_context_def sample_resize_def to_device_def)
qed

subsection \<open>C9: the antialias flag outside the bilinear and bicubic modes\<close>

lemma effective_antialias_off:
  "m \<noteq> Bilinear \<Longrightarrow> m \<noteq> Bicubic \<Longrightarrow> effective_antialias m aa = False"
  by (simp add: effective_antialias_def)

text \<open>
  C9. For ResizeLatentsInvocation and ScaleLatentsInvocation, when the mode is neither
  bilinear nor bicubic, two runs on the same context that differ only in the antialias
  field give equal results (the same error, or the same store and output): interpolate is
  called with antialias False in both.
\<close>

theorem antialias_ignored_outside_bilinear_bicubic:
  assumes "rs_mode r \<noteq> Bilinear" and "rs_mode r \<noteq> Bicubic"
    and "sc_mode s \<noteq> Bilinear" and "sc_mode s \<noteq> Bicubic"
  shows "ResizeLatents_invoke interpolate dev ctx (r\<lparr>rs_antialias := a\<rparr>) =
           ResizeLatents_invoke interpolate dev ctx (r\<lparr>rs_antialias := b\<rparr>)
       \<and> ScaleLatents_invoke interpolate dev ctx (s\<lparr>sc_antialias := a\<rparr>) =
           ScaleLatents_invoke interpolate dev ctx (s\<lparr>sc_antialias := b\<rparr>)"
proof
  show "ResizeLatents_invoke interpolate dev ctx (r\<lparr>rs_antialias := a\<rparr>) =
          ResizeLatents_invoke interpolate dev ctx (r\<lparr>rs_antialias := b\<rparr>)"
    using assms(1,2)
    by (simp add: ResizeLatents_invoke_def effective_antialias_off
        split: option.split sum.split)
  show "ScaleLatents_invoke interpolate dev ctx (s\<lparr>sc_antialias := a\<rparr>) =
          ScaleLatents_invoke interpolate dev ctx (s\<lparr>sc_antialias := b\<rparr>)"
    using assms(3,4)
    by (simp add: ScaleLatents_invoke_def effective_antialias_off
        split: option.split sum.split)
qed

theorem antialias_ignored_witness:
  "rs_mode sample_resize \<noteq> Bilinear \<and> rs_mode sample_resize \<noteq> Bicubic
   \<and> sc_mode sample_scale \<noteq> Bilinear \<and> sc_mode sample_scale \<noteq> Bicubic
   \<and> ResizeLatents_invoke sample_interpolate Cuda sample_context (sample_resize\<lparr>rs_antialias := True\<rparr>) =
       ResizeLatents_invoke sample_interpolate Cuda sample_context (sample_resize\<lparr>rs_antialias := False\<rparr>)
   \<and> ScaleLatents_invoke sample_interpolate Cuda sample_context (sample_scale\<lparr>sc_antialias := True\<rparr>) =
       ScaleLatents_invoke sample_interpolate Cuda sample_context (sample_scale\<lparr>sc_antialias := False\<rparr>)
   \<and> sample_interpolate sample_tensor (Size 1 2) Nearest True
       \<noteq> sample_interpolate sample_tensor (Size 1 2) Nearest False"
proof -
  have m: "rs_mode sample_resize \<noteq> Bilinear" "rs_mode sample_resize \<noteq> Bicubic"
    "sc_mode sample_scale \<noteq> Bilinear" "sc_mode sample_scale \<noteq> Bicubic"
    by (simp_all add: sample_resize_def sample_scale_def)
  have d: "sample_interpolate sample_tensor (Size 1 2) Nearest True
       \<noteq> sample_interpolate sample_tensor (Size 1 2) Nearest False"
    by (simp add: sample_interpolate_def sample_tensor_def)
  show ?thesis
    using antialias_ignored_outside_bilinear_bicubic[OF m, of sample_interpolate Cuda sample_context True False] m d
    by simp
qed

subsection \<open>C10: seed and initial latents of the denoising node\<close>

text \<open>
  C10 (as amended). The opening of DenoiseLatentsInvocation.invoke resolves the seed as the
  noise field's seed when a noise field is provided and carries a seed, otherwise the
  latents field's seed when a latents field is provided and carries a seed, otherwise 0.
  When no latents field is provided, the initial latents are the all-zeros tensor of the
  noise tensor's shape; with neither field the node raises (TypeError), so a noise field
  must be provided whenever the latents field is absent.
\<close>

theorem denoise_inputs_spec:
  "(dn_noise self = None \<and> dn_latents self = None \<longrightarrow> denoise_inputs ctx self = Inl TypeError)
   \<and> (\<forall>nf n. dn_latents self = None \<and> dn_noise self = Some nf
          \<and> latents_get ctx (latents_name nf) = Inr n \<longrightarrow>
        denoise_inputs ctx self =
          Inr ((case seed nf of None \<Rightarrow> 0 | Some v \<Rightarrow> v), Some n, zeros_like n))
   \<and> (\<forall>sd noise lat. denoise_inputs ctx self = Inr (sd, noise, lat) \<longrightarrow>
        sd = (case field_seed (dn_noise self) of
                Some v \<Rightarrow> v
              | None \<Rightarrow> (case field_seed (dn_latents self) of Some v \<Rightarrow> v | None \<Rightarrow> 0))
        \<and> (dn_latents self = None \<longrightarrow>
             (\<exists>n. dn_noise self \<noteq> None \<and> noise = Some n \<and> lat = zeros_like n
                  \<and> shape lat = shape n \<and> (\<forall>x \<in> set (elems lat). x = 0))))"
proof (intro conjI allI impI)
  assume "dn_noise self = None \<and> dn_latents self = None"
  then show "denoise_inputs ctx self = Inl TypeError"
    by (simp add: denoise_inputs_def)
next
  fix nf n
  assume "dn_latents self = None \<and> dn_noise self = Some nf
          \<and> latents_get ctx (latents_name nf) = Inr n"
  then show "denoise_inputs ctx self =
          Inr ((case seed nf of None \<Rightarrow> 0 | Some v \<Rightarrow> v), Some n, zeros_like n)"
    by (simp add: denoise_inputs_def)
next
  fix sd noise lat
  assume r: "denoise_inputs ctx self = Inr (sd, noise, lat)"
  then show "sd = (case field_seed (dn_noise self) of
                Some v \<Rightarrow> v
              | None \<Rightarrow> (case field_seed (dn_latents self) of Some v \<Rightarrow> v | None \<Rightarrow> 0))"
    by (auto simp: denoise_inputs_def field_seed_def split: option.splits sum.splits if_splits)
next
  fix sd noise lat
  assume r: "denoise_inputs ctx self = Inr (sd, noise, lat)" and l: "dn_latents self = None"
  then show "\<exists>n. dn_noise self \<noteq> None \<and> noise = Some n \<and> lat = zeros_like n
                  \<and> shape lat = shape n \<and> (\<forall>x \<in> set (elems lat). x = 0)"
    by (auto simp: denoise_inputs_def zeros_like_def split: option.splits sum.splits)
qed

theorem denoise_inputs_spec_witness:
  "dn_latents noise_only_denoise = None
   \<and> dn_noise noise_only_denoise = Some \<lparr>latents_name = Some ''noise'', seed = Some 11\<rparr>
   \<and> latents_get sample_context (Some ''noise'') = Inr sample_tensor
   \<and> denoise_inputs sample_context noise_only_denoise =
       Inr (11, Some sample_tensor, zeros_like sample_tensor)
   \<and> shape (zeros_like sample_tensor) = [1, 4, 2, 3]
   \<and> elems (zeros_like sample_tensor) = replicate 24 0"
proof -
  have a: "dn_latents noise_only_denoise = None"
    "dn_noise noise_only_denoise = Some \<lparr>latents_name = Some ''noise'', seed = Some 11\<rparr>"
    by (simp_all add: noise_only_denoise_def)
  have z: "shape (zeros_like sample_tensor) = [1, 4, 2, 3]"
    "elems (zeros_like sample_tensor) = replicate 24 0"
    by (simp_all add: zeros_like_def sample_tensor_def)
  show ?thesis
    using denoise_inputs_spec[of noise_only_denoise sample_context] a sample_base(2) z
    by simp
qed

text \<open>
  C10 as stated fails where the noise field is provided without a seed (the seed of a
  LatentsField is optional, and ImageToLatentsInvocation outputs such fields): the code then
  takes the latents field's seed, here 7, not the noise field's.
\<close>

theorem denoise_inputs_seed_counterexample:
  "dn_noise seedless_noise_denoise = Some \<lparr>latents_name = Some ''noise'', seed = None\<rparr>
   \<and> denoise_inputs sample_context seedless_noise_denoise =
       Inr (7, Some sample_tensor, sample_tensor)
   \<and> Some (7::int) \<noteq> seed \<lparr>latents_name = Some ''noise'', seed = None\<rparr>"
  by (simp add: denoise_inputs_def seedless_noise_denoise_def sample_base)

subsection \<open>C7: the VAE tiling policy\<close>

lemma tiling_switch:
  "use_tiling (if b then enable_tiling v else disable_tiling v) = b"
  by (simp add: enable_tiling_def disable_tiling_def)

lemma tiled_base: "latents_get tiled_context (Some ''base'') = Inr sample_tensor"
  by (simp add: latents_get_def tiled_context_def)

lemma sample_l2i_run:
  "LatentsToImage_invoke sample_cast sample_get_vae sample_decode sample_images_create
     tiled_context sample_l2i =
   Inr (enable_tiling (vae_to Float16 sample_vae),
        \<lparr>io_image = \<lparr>image_name = ''s1_n5''\<rparr>, io_width = 24, io_height = 16\<rparr>)"
  unfolding LatentsToImage_invoke_def Let_def case_prod_beta
  by (simp add: sample_l2i_def tiled_base sample_get_vae_def)
     (simp add: sample_decode_def sample_images_create_def to_dtype_def to_device_def
       sample_tensor_def tiled_context_def sample_l2i_def)

lemma sample_i2l_run:
  "ImageToLatents_invoke sample_cast sample_get_vae sample_get_pil_image sample_image_to_tensor
     sample_encode tiled_context sample_i2l =
   Inr (disable_tiling (vae_to Float16 sample_vae),
        latents_save tiled_context ''s1__n6''
          \<lparr>shape = [1, 4, 2, 3], elems = replicate 24 (1 / 8), t_dtype = Float16, t_device = Cpu\<rparr>,
        \<lparr>latents = \<lparr>latents_name = Some ''s1__n6'', seed = None\<rparr>, width = 24, height = 16\<rparr>)"
  unfolding ImageToLatents_invoke_def Let_def
  by (simp add: sample_i2l_def sample_get_vae_def sample_get_pil_image_def
      sample_image_to_tensor_def add_batch_dim_def sample_encode_def to_dtype_def to_device_def
      node_name_def tiled_context_def build_latents_output_def size_at_def sample_cast_def
      sample_vae_def vae_to_def disable_tiling_def enable_tiling_def)

text \<open>
  C7. Once the latents (or the image) and the VAE have been obtained,
  LatentsToImageInvocation.invoke decodes with, and leaves behind, a VAE whose tiling switch
  is on exactly when the node's tiled flag or the configuration's tiled_decode flag is set;
  ImageToLatentsInvocation.invoke encodes with a VAE whose tiling switch is on exactly when
  the node's tiled flag is set, whatever the configuration says.
\<close>

theorem vae_tiling_policy:
  assumes "l2i_latents l = Some lf"
    and "latents_get ctx (latents_name lf) = Inr t"
    and "l2i_vae l = Some vf"
    and "get_vae (vae_key vf) = Inr v0"
    and "i2l_image i = Some imf"
    and "get_pil_image (image_name imf) = Inr pil"
    and "i2l_vae i = Some vf'"
    and "get_vae' (vae_key vf') = Inr v0'"
  shows "(\<exists>v x. use_tiling v = (l2i_tiled l \<or> tiled_decode ctx)
            \<and> LatentsToImage_invoke cast get_vae decode images_create ctx l =
                (case decode v x of
                   Inl e \<Rightarrow> Inl e
                 | Inr img \<Rightarrow>
                     (case images_create img (l2i_id l) (graph_execution_state_id ctx)
                             (l2i_is_intermediate l) (l2i_metadata l) of
                        Inl e \<Rightarrow> Inl e
                      | Inr dto \<Rightarrow>
                          Inr (v, \<lparr>io_image = \<lparr>image_name = dto_image_name dto\<rparr>,
                                   io_width = dto_width dto, io_height = dto_height dto\<rparr>))))
       \<and> (\<exists>v x. use_tiling v = i2l_tiled i
            \<and> ImageToLatents_invoke cast' get_vae' get_pil_image image_to_tensor encode ctx' i =
                (case encode v x of
                   Inl e \<Rightarrow> Inl e
                 | Inr y \<Rightarrow>
                     (case build_latents_output (node_name ctx' (i2l_id i))
                             (to_device Cpu (to_dtype cast' (vae_dtype v0') y)) None of
                        Inl e \<Rightarrow> Inl e
                      | Inr out \<Rightarrow>
                          Inr (v,
                               latents_save ctx' (node_name ctx' (i2l_id i))
                                 (to_device Cpu (to_dtype cast' (vae_dtype v0') y)),
                               out))))"
proof
  define pr where "pr =
    (if l2i_fp32 l then
       (let v = vae_to Float32 v0
        in if use_torch_2_0_or_xformers v
           then (submodules_to (t_dtype (to_device (vae_device v0) t)) v, to_device (vae_device v0) t)
           else (v, to_dtype cast Float32 (to_device (vae_device v0) t)))
     else (vae_to Float16 v0, to_dtype cast Float16 (to_device (vae_device v0) t)))"
  define v where "v = (if l2i_tiled l \<or> tiled_decode ctx
                       then enable_tiling (fst pr) else disable_tiling (fst pr))"
  have "use_tiling v = (l2i_tiled l \<or> tiled_decode ctx)"
    unfolding v_def by (rule tiling_switch)
  moreover have "LatentsToImage_invoke cast get_vae decode images_create ctx l =
                (case decode v (snd pr) of
                   Inl e \<Rightarrow> Inl e
                 | Inr img \<Rightarrow>
                     (case images_create img (l2i_id l) (graph_execution_state_id ctx)
                             (l2i_is_intermediate l) (l2i_metadata l) of
                        Inl e \<Rightarrow> Inl e
                      | Inr dto \<Rightarrow>
                          Inr (v, \<lparr>io_image = \<lparr>image_name = dto_image_name dto\<rparr>,
                                   io_width = dto_width dto, io_height = dto_height dto\<rparr>)))"
    unfolding LatentsToImage_invoke_def v_def pr_def Let_def case_prod_beta
    by (simp only: assms(1-4) option.case sum.case)
  ultimately show "\<exists>v x. use_tiling v = (l2i_tiled l \<or> tiled_decode ctx)
            \<and> LatentsToImage_invoke cast get_vae decode images_create ctx l =
                (case decode v x of
                   Inl e \<Rightarrow> Inl e
                 | Inr img \<Rightarrow>
                     (case images_create img (l2i_id l) (graph_execution_state_id ctx)
                             (l2i_is_intermediate l) (l2i_metadata l) of
                        Inl e \<Rightarrow> Inl e
                      | Inr dto \<Rightarrow>
                          Inr (v, \<lparr>io_image = \<lparr>image_name = dto_image_name dto\<rparr>,
                                   io_width = dto_width dto, io_height = dto_height dto\<rparr>)))"
    by blast
next
  define v1 where "v1 =
    (if i2l_fp32 i then
       (let v = vae_to Float32 v0'
        in if use_torch_2_0_or_xformers v then submodules_to (vae_dtype v0') v else v)
     else vae_to Float16 v0')"
  define v where "v = (if i2l_tiled i then enable_tiling v1 else disable_tiling v1)"
  define x where "x = to_dtype cast' (vae_dtype v)
                        (to_device (vae_device v) (add_batch_dim (image_to_tensor pil)))"
  have "use_tiling v = i2l_tiled i"
    unfolding v_def by (rule tiling_switch)
  moreover have "ImageToLatents_invoke cast' get_vae' get_pil_image image_to_tensor encode ctx' i =
                (case encode v x of
                   Inl e \<Rightarrow> Inl e
                 | Inr y \<Rightarrow>
                     (case build_latents_output (node_name ctx' (i2l_id i))
                             (to_device Cpu (to_dtype cast' (vae_dtype v0') y)) None of
                        Inl e \<Rightarrow> Inl e
                      | Inr out \<Rightarrow>
                          Inr (v,
                               latents_save ctx' (node_name ctx' (i2l_id i))
                                 (to_device Cpu (to_dtype cast' (vae_dtype v0') y)),
                               out)))"
    unfolding ImageToLatents_invoke_def x_def v_def v1_def Let_def
    by (simp only: assms(5-8) option.case sum.case)
  ultimately show "\<exists>v x. use_tiling v = i2l_tiled i
            \<and> ImageToLatents_invoke cast' get_vae' get_pil_image image_to_tensor encode ctx' i =
                (case encode v x of
                   Inl e \<Rightarrow> Inl e
                 | Inr y \<Rightarrow>
                     (case build_latents_output (node_name ctx' (i2l_id i))
                             (to_device Cpu (to_dtype cast' (vae_dtype v0') y)) None of
                        Inl e \<Rightarrow> Inl e
                      | Inr out \<Rightarrow>
                          Inr (v,
                               latents_save ctx' (node_name ctx' (i2l_id i))
                                 (to_device Cpu (to_dtype cast' (vae_dtype v0') y)),
                               out)))"
    by blast
qed

theorem vae_tiling_policy_witness:
  "l2i_latents sample_l2i = Some \<lparr>latents_name = Some ''base'', seed = Some 7\<rparr>
   \<and> latents_get tiled_context (Some ''base'') = Inr sample_tensor
   \<and> l2i_vae sample_l2i = Some \<lparr>vae_key = ''vae''\<rparr>
   \<and> i2l_vae sample_i2l = Some \<lparr>vae_key = ''vae''\<rparr>
   \<and> sample_get_vae ''vae'' = Inr sample_vae
   \<and> i2l_image sample_i2l = Some \<lparr>image_name = ''photo''\<rparr>
   \<and> sample_get_pil_image ''photo'' = Inr (24, 16)
   \<and> \<not> l2i_tiled sample_l2i \<and> \<not> i2l_tiled sample_i2l \<and> tiled_decode tiled_context
   \<and> (\<exists>v x. use_tiling v
         \<and> LatentsToImage_invoke sample_cast sample_get_vae sample_decode sample_images_create
              tiled_context sample_l2i =
            (case sample_decode v x of
               Inl e \<Rightarrow> Inl e
             | Inr img \<Rightarrow>
                 (case sample_images_create img (l2i_id sample_l2i)
                         (graph_execution_state_id tiled_context)
                         (l2i_is_intermediate sample_l2i) (l2i_metadata sample_l2i) of
                    Inl e \<Rightarrow> Inl e
                  | Inr dto \<Rightarrow>
                      Inr (v, \<lparr>io_image = \<lparr>image_name = dto_image_name dto\<rparr>,
                               io_width = dto_width dto, io_height = dto_height dto\<rparr>))))
   \<and> (\<exists>v x. \<not> use_tiling v
         \<and> ImageToLatents_invoke sample_cast sample_get_vae sample_get_pil_image
              sample_image_to_tensor sample_encode tiled_context sample_i2l =
            (case sample_encode v x of
               Inl e \<Rightarrow> Inl e
             | Inr y \<Rightarrow>
                 (case build_latents_output (node_name tiled_context (i2l_id sample_i2l))
                         (to_device Cpu (to_dtype sample_cast (vae_dtype sample_vae) y)) None of
                    Inl e \<Rightarrow> Inl e
                  | Inr out \<Rightarrow>
                      Inr (v,
                           latents_save tiled_context (node_name tiled_context (i2l_id sample_i2l))
                             (to_device Cpu (to_dtype sample_cast (vae_dtype sample_vae) y)),
                           out))))
   \<and> LatentsToImage_invoke sample_cast sample_get_vae sample_decode sample_images_create
         tiled_context sample_l2i =
       Inr (enable_tiling (vae_to Float16 sample_vae),
            \<lparr>io_image = \<lparr>image_name = ''s1_n5''\<rparr>, io_width = 24, io_height = 16\<rparr>)
   \<and> ImageToLatents_invoke sample_cast sample_get_vae sample_get_pil_image
         sample_image_to_tensor sample_encode tiled_context sample_i2l =
       Inr (disable_tiling (vae_to Float16 sample_vae),
            latents_save tiled_context ''s1__n6''
              \<lparr>shape = [1, 4, 2, 3], elems = replicate 24 (1 / 8), t_dtype = Float16,
                 t_device = Cpu\<rparr>,
            \<lparr>latents = \<lparr>latents_name = Some ''s1__n6'', seed = None\<rparr>, width = 24,
               height = 16\<rparr>)"
proof -
  have h1: "l2i_latents sample_l2i = Some \<lparr>latents_name = Some ''base'', seed = Some 7\<rparr>"
    and h3: "l2i_vae sample_l2i = Some \<lparr>vae_key = ''vae''\<rparr>"
    and h7: "i2l_vae sample_i2l = Some \<lparr>vae_key = ''vae''\<rparr>"
    and h5: "i2l_image sample_i2l = Some \<lparr>image_name = ''photo''\<rparr>"
    by (simp_all add: sample_l2i_def sample_i2l_def)
  have h2: "latents_get tiled_context (latents_name \<lparr>latents_name = Some ''base'', seed = Some 7\<rparr>)
              = Inr sample_tensor"
    by (simp add: tiled_base)
  have h4: "sample_get_vae (vae_key \<lparr>vae_key = ''vae''\<rparr>) = Inr sample_vae"
    by (simp add: sample_get_vae_def)
  have h6: "sample_get_pil_image (image_name \<lparr>image_name = ''photo''\<rparr>) = Inr (24, 16)"
    by (simp add: sample_get_pil_image_def)
  have f: "\<not> l2i_tiled sample_l2i" "\<not> i2l_tiled sample_i2l" "tiled_decode tiled_context"
    by (simp_all add: sample_l2i_def sample_i2l_def tiled_context_def)
  show ?thesis
    using vae_tiling_policy[where get_vae = sample_get_vae and get_vae' = sample_get_vae
        and get_pil_image = sample_get_pil_image and ctx = tiled_context and ctx' = tiled_context
        and cast = sample_cast and cast' = sample_cast and decode = sample_decode
        and images_create = sample_images_create and image_to_tensor = sample_image_to_tensor
        and encode = sample_encode, OF h1 h2 h3 h4 h5 h6 h7 h4]
      h1 h2 h3 h4 h5 h6 h7 f sample_l2i_run sample_i2l_run
    by simp
qed

subsection \<open>The loop of prep_control_data\<close>

lemma control_loop_fields:
  "control_loop body (map AControlField cfs) st data = Inr (st', ds) \<Longrightarrow>
     \<exists>ds'. ds = data @ ds' \<and> list_all2 (\<lambda>c d. body c = Inr d) cfs ds'
           \<and> st' = st @ map cn_model ds'"
proof (induction cfs arbitrary: st data)
  case Nil
  then show ?case by simp
next
  case (Cons c cfs)
  from Cons.prems obtain d where d: "body c = Inr d"
    and r: "control_loop body (map AControlField cfs) (st @ [cn_model d]) (data @ [d]) = Inr (st', ds)"
    by (auto split: sum.splits)
  from Cons.IH[OF r] obtain ds' where
    "ds = (data @ [d]) @ ds'" "list_all2 (\<lambda>c d. body c = Inr d) cfs ds'"
    "st' = (st @ [cn_model d]) @ map cn_model ds'"
    by blast
  with d have "ds = data @ (d # ds') \<and> list_all2 (\<lambda>c d. body c = Inr d) (c # cfs) (d # ds')
           \<and> st' = st @ map cn_model (d # ds')"
    by simp
  then show ?case by blast
qed

lemma control_loop_all_fields:
  "control_loop body items st data = Inr (st', ds) \<Longrightarrow> \<exists>cfs. items = map AControlField cfs"
proof (induction body items st data rule: control_loop.induct)
  case (1 body exit_stack control_data)
  then show ?case by simp
next
  case (2 body rest exit_stack control_data)
  then show ?case by simp
next
  case (3 body control_info rest exit_stack control_data)
  from "3.prems" obtain d where d: "body control_info = Inr d"
    and r: "control_loop body rest (exit_stack @ [cn_model d]) (control_data @ [d]) = Inr (st', ds)"
    by (auto split: sum.splits)
  from "3.IH"[OF d r] obtain cfs where "rest = map AControlField cfs" by blast
  then have "AControlField control_info # rest = map AControlField (control_info # cfs)" by simp
  then show ?case by (rule exI)
qed

lemma control_loop_total:
  "\<forall>c \<in> set cfs. \<exists>d. body c = Inr d \<Longrightarrow>
     \<exists>st' ds. control_loop body (map AControlField cfs) st data = Inr (st', ds)"
proof (induction cfs arbitrary: st data)
  case Nil
  then show ?case by simp
next
  case (Cons c cfs)
  then obtain d where d: "body c = Inr d" by auto
  from Cons.prems have "\<forall>c \<in> set cfs. \<exists>d. body c = Inr d" by simp
  from Cons.IH[OF this, of "st @ [cn_model d]" "data @ [d]"] d show ?case by simp
qed

lemma control_entry_carries:
  "control_entry gm gp pc cfg w h c = Inr d \<Longrightarrow> carries c d"
  by (auto simp: control_entry_def carries_def split: sum.splits)

lemma control_entry_prepared:
  "control_entry gm gp pc cfg w h c = Inr d \<Longrightarrow>
     \<exists>img (m :: controlnet_model).
        pc img cfg w h (cm_device m) (cm_dtype m) (cf_control_mode c) (cf_resize_mode c)
          = Inr (cn_image_tensor d)"
proof -
  assume a: "control_entry gm gp pc cfg w h c = Inr d"
  then obtain m img t where
    "gm (model_name (cf_control_model c)) (base_model (cf_control_model c)) = Inr m"
    "gp (image_name (cf_image c)) = Inr img"
    and t: "pc img cfg w h (cm_device m) (cm_dtype m) (cf_control_mode c) (cf_resize_mode c) = Inr t"
    by (auto simp: control_entry_def split: sum.splits)
  with a have "cn_image_tensor d = t"
    by (auto simp: control_entry_def)
  with t have "pc img cfg w h (cm_device m) (cm_dtype m) (cf_control_mode c) (cf_resize_mode c)
                 = Inr (cn_image_tensor d)"
    by simp
  then show ?thesis by (intro exI, assumption)
qed

lemma control_entry_succeeds:
  "gm (model_name (cf_control_model c)) (base_model (cf_control_model c)) = Inr m \<Longrightarrow>
   gp (image_name (cf_image c)) = Inr img \<Longrightarrow>
   pc img cfg w h (cm_device m) (cm_dtype m) (cf_control_mode c) (cf_resize_mode c) = Inr t \<Longrightarrow>
   \<exists>d. control_entry gm gp pc cfg w h c = Inr d"
  by (simp add: control_entry_def)

lemma prep_control_data_list:
  assumes "4 \<le> length latents_shape" and "cfs \<noteq> []"
  shows "prep_control_data gm gp pc (ControlList (map AControlField cfs)) latents_shape st cfg =
           (case control_loop
                   (control_entry gm gp pc cfg (int (latents_shape ! 3) * 8)
                      (int (latents_shape ! 2) * 8))
                   (map AControlField cfs) st [] of
              Inl e \<Rightarrow> Inl e
            | Inr (stack, control_data) \<Rightarrow> Inr (stack, Some control_data))"
proof -
  from assms(2) obtain c rest where "cfs = c # rest" by (cases cfs) auto
  with assms(1) show ?thesis
    by (simp add: prep_control_data_def Let_def)
qed

lemma sample_entry:
  "control_entry sample_get_model sample_get_pil_image sample_prepare True 24 16 canny_field
     = Inr canny_data"
  "control_entry sample_get_model sample_get_pil_image sample_prepare True 24 16 depth_field
     = Inr depth_data"
  by (simp_all add: control_entry_def sample_get_model_def sample_get_pil_image_def
      sample_prepare_def canny_field_def depth_field_def canny_data_def depth_data_def)

lemma sample_control_run:
  "prep_control_data sample_get_model sample_get_pil_image sample_prepare
     (ControlList [AControlField canny_field, AControlField depth_field]) [1, 4, 2, 3] [] True =
   Inr ([cn_model canny_data, cn_model depth_data], Some [canny_data, depth_data])"
  by (simp add: prep_control_data_def sample_entry)

lemma list_all2_right:
  "list_all2 P xs ys \<Longrightarrow> y \<in> set ys \<Longrightarrow> \<exists>x \<in> set xs. P x y"
  by (induction rule: list_all2_induct) auto

lemma prep_control_data_result:
  assumes "prep_control_data gm gp pc control_input latents_shape st cfg = Inr (st', Some ds)"
  shows "4 \<le> length latents_shape
       \<and> (\<exists>items. control_loop
                     (control_entry gm gp pc cfg (int (latents_shape ! 3) * 8)
                        (int (latents_shape ! 2) * 8)) items st [] = Inr (st', ds))"
proof -
  from assms have l: "4 \<le> length latents_shape"
    by (auto simp: prep_control_data_def split: if_splits)
  with assms show ?thesis
    by (auto simp: prep_control_data_def Let_def split: option.splits sum.splits)
qed

lemma control_entry_cong:
  assumes "\<forall>img c dev dt cm rm. pc img c w h dev dt cm rm = pc' img c w h dev dt cm rm"
  shows "control_entry gm gp pc cfg w h = control_entry gm gp pc' cfg w h"
proof (rule ext)
  fix c
  show "control_entry gm gp pc cfg w h c = control_entry gm gp pc' cfg w h c"
    unfolding control_entry_def by (simp only: assms[rule_format])
qed

subsection \<open>C4: control input is optional\<close>

text \<open>
  C4. For a latents shape of at least four dimensions, prep_control_data returns None (and
  leaves the exit stack as it is) when control_input is None, the empty list, a value that
  is neither a ControlField nor a list, or a list whose first element is not a
  ControlField; a single ControlField is treated as the one-element list; for a non-empty
  list of ControlFields every result has one ControlNetData per ControlField, in the same
  order, each carrying the field's weight, step percents, control mode and resize mode;
  and there is a result whenever the three external calls succeed for every field.
\<close>

theorem prep_control_data_optional:
  assumes "4 \<le> length latents_shape"
  shows "prep_control_data gm gp pc (NoControl :: 'w control_input) latents_shape st cfg
           = Inr (st, None)
       \<and> prep_control_data gm gp pc (ControlList [] :: 'w control_input) latents_shape st cfg
           = Inr (st, None)
       \<and> prep_control_data gm gp pc (OtherControl :: 'w control_input) latents_shape st cfg
           = Inr (st, None)
       \<and> prep_control_data gm gp pc (ControlList (NotAControlField # (rest :: 'w control_item list)))
             latents_shape st cfg
           = Inr (st, None)
       \<and> prep_control_data gm gp pc (OneControl (c :: 'w ControlField)) latents_shape st cfg
           = prep_control_data gm gp pc (ControlList [AControlField c]) latents_shape st cfg
       \<and> (\<forall>(cfs :: 'w ControlField list) st' r. cfs \<noteq> []
             \<and> prep_control_data gm gp pc (ControlList (map AControlField cfs)) latents_shape st cfg
                 = Inr (st', r)
             \<longrightarrow> (\<exists>ds. r = Some ds \<and> length ds = length cfs \<and> list_all2 carries cfs ds))
       \<and> (\<forall>(cfs :: 'w ControlField list). cfs \<noteq> []
             \<and> (\<forall>c \<in> set cfs. \<exists>m img t.
                    gm (model_name (cf_control_model c)) (base_model (cf_control_model c)) = Inr m
                    \<and> gp (image_name (cf_image c)) = Inr img
                    \<and> pc img cfg (int (latents_shape ! 3) * 8) (int (latents_shape ! 2) * 8)
                         (cm_device m) (cm_dtype m) (cf_control_mode c) (cf_resize_mode c) = Inr t)
             \<longrightarrow> (\<exists>st' ds. prep_control_data gm gp pc (ControlList (map AControlField cfs))
                               latents_shape st cfg = Inr (st', Some ds)))"
proof (intro conjI allI impI)
  show "prep_control_data gm gp pc (NoControl :: 'w control_input) latents_shape st cfg
           = Inr (st, None)"
    using assms by (simp add: prep_control_data_def)
  show "prep_control_data gm gp pc (ControlList [] :: 'w control_input) latents_shape st cfg
           = Inr (st, None)"
    using assms by (simp add: prep_control_data_def)
  show "prep_control_data gm gp pc (OtherControl :: 'w control_input) latents_shape st cfg
           = Inr (st, None)"
    using assms by (simp add: prep_control_data_def)
  show "prep_control_data gm gp pc (ControlList (NotAControlField # rest)) latents_shape st cfg
           = Inr (st, None)" for rest :: "'w control_item list"
    using assms by (simp add: prep_control_data_def)
  show "prep_control_data gm gp pc (OneControl c) latents_shape st cfg
           = prep_control_data gm gp pc (ControlList [AControlField c]) latents_shape st cfg"
    using assms by (simp add: prep_control_data_def)
next
  fix cfs :: "'w ControlField list" and st' r
  assume a: "cfs \<noteq> []
             \<and> prep_control_data gm gp pc (ControlList (map AControlField cfs)) latents_shape st cfg
                 = Inr (st', r)"
  let ?body = "control_entry gm gp pc cfg (int (latents_shape ! 3) * 8) (int (latents_shape ! 2) * 8)"
  from a prep_control_data_list[OF assms, of cfs gm gp pc st cfg]
  obtain ds where r: "r = Some ds"
    and l: "control_loop ?body (map AControlField cfs) st [] = Inr (st', ds)"
    by (auto split: sum.splits)
  from control_loop_fields[OF l] have "list_all2 (\<lambda>c d. ?body c = Inr d) cfs ds"
    by simp
  then have "list_all2 carries cfs ds"
    by (rule list_all2_mono) (rule control_entry_carries)
  with r show "\<exists>ds. r = Some ds \<and> length ds = length cfs \<and> list_all2 carries cfs ds"
    by (auto dest: list_all2_lengthD)
next
  fix cfs :: "'w ControlField list"
  assume a: "cfs \<noteq> []
             \<and> (\<forall>c \<in> set cfs. \<exists>m img t.
                    gm (model_name (cf_control_model c)) (base_model (cf_control_model c)) = Inr m
                    \<and> gp (image_name (cf_image c)) = Inr img
                    \<and> pc img cfg (int (latents_shape ! 3) * 8) (int (latents_shape ! 2) * 8)
                         (cm_device m) (cm_dtype m) (cf_control_mode c) (cf_resize_mode c) = Inr t)"
  let ?body = "control_entry gm gp pc cfg (int (latents_shape ! 3) * 8) (int (latents_shape ! 2) * 8)"
  from a have "\<forall>c \<in> set cfs. \<exists>d. ?body c = Inr d"
    by (blast intro: control_entry_succeeds)
  from control_loop_total[OF this, of st "[]"] obtain st' ds where
    "control_loop ?body (map AControlField cfs) st [] = Inr (st', ds)" by blast
  with a prep_control_data_list[OF assms, of cfs gm gp pc st cfg]
  show "\<exists>st' ds. prep_control_data gm gp pc (ControlList (map AControlField cfs))
                               latents_shape st cfg = Inr (st', Some ds)"
    by simp
qed

theorem prep_control_data_optional_witness:
  "4 \<le> length [1, 4, 2, 3 :: nat]
   \<and> prep_control_data sample_get_model sample_get_pil_image sample_prepare
         (NoControl :: real control_input) [1, 4, 2, 3] [] True = Inr ([], None)
   \<and> prep_control_data sample_get_model sample_get_pil_image sample_prepare
         (ControlList [NotAControlField, AControlField canny_field]) [1, 4, 2, 3] [] True
       = Inr ([], None)
   \<and> prep_control_data sample_get_model sample_get_pil_image sample_prepare
         (ControlList [AControlField canny_field, AControlField depth_field]) [1, 4, 2, 3] [] True
       = Inr ([cn_model canny_data, cn_model depth_data], Some [canny_data, depth_data])
   \<and> list_all2 carries [canny_field, depth_field] [canny_data, depth_data]
   \<and> cn_weight depth_data = 3 / 4 \<and> cn_control_mode depth_data = ''more_control''"
proof -
  have h: "4 \<le> length [1, 4, 2, 3 :: nat]" by simp
  note t = prep_control_data_optional[where gm = sample_get_model and gp = sample_get_pil_image
      and pc = sample_prepare and st = "[]" and cfg = True and c = canny_field
      and rest = "[AControlField canny_field]", OF h]
  from t have n: "prep_control_data sample_get_model sample_get_pil_image sample_prepare
         (NoControl :: real control_input) [1, 4, 2, 3] [] True = Inr ([], None)"
    and m: "prep_control_data sample_get_model sample_get_pil_image sample_prepare
         (ControlList [NotAControlField, AControlField canny_field]) [1, 4, 2, 3] [] True
       = Inr ([], None)"
    by simp_all
  note t6 = t[THEN conjunct2, THEN conjunct2, THEN conjunct2, THEN conjunct2, THEN conjunct2,
      THEN conjunct1]
  from t6[rule_format, of "[canny_field, depth_field]"
      "[cn_model canny_data, cn_model depth_data]" "Some [canny_data, depth_data]"]
    sample_control_run
  have c: "list_all2 carries [canny_field, depth_field] [canny_data, depth_data]"
    by simp
  have f: "cn_weight depth_data = 3 / 4 \<and> cn_control_mode depth_data = ''more_control''"
    by (simp add: depth_data_def)
  from h n m sample_control_run c f show ?thesis by simp
qed

subsection \<open>C5: the size asked of prepare_control_image\<close>

text \<open>
  C5. Every ControlNetData that prep_control_data returns holds a control image that
  prepare_control_image returned when asked for the width \<open>latents_shape[3] * 8\<close> and the
  height \<open>latents_shape[2] * 8\<close>; and prep_control_data calls prepare_control_image with
  no other width or height: replacing prepare_control_image by a function that agrees with
  it at that width and height does not change the result.
\<close>

theorem prep_control_data_image_size:
  "(\<forall>st' ds. prep_control_data gm gp pc control_input latents_shape st cfg = Inr (st', Some ds)
      \<longrightarrow> (\<forall>d \<in> set ds. \<exists>img (m :: controlnet_model) cmode rmode.
              pc img cfg (int (latents_shape ! 3) * 8) (int (latents_shape ! 2) * 8)
                (cm_device m) (cm_dtype m) cmode rmode = Inr (cn_image_tensor d)))
   \<and> ((\<forall>img c dev dt cm rm.
          pc img c (int (latents_shape ! 3) * 8) (int (latents_shape ! 2) * 8) dev dt cm rm
            = pc' img c (int (latents_shape ! 3) * 8) (int (latents_shape ! 2) * 8) dev dt cm rm)
      \<longrightarrow> prep_control_data gm gp pc control_input latents_shape st cfg
            = prep_control_data gm gp pc' control_input latents_shape st cfg)"
proof (intro conjI allI impI ballI)
  fix st' ds d
  assume r: "prep_control_data gm gp pc control_input latents_shape st cfg = Inr (st', Some ds)"
    and d: "d \<in> set ds"
  let ?body = "control_entry gm gp pc cfg (int (latents_shape ! 3) * 8) (int (latents_shape ! 2) * 8)"
  from prep_control_data_result[OF r] obtain items where
    l: "control_loop ?body items st [] = Inr (st', ds)" by blast
  from control_loop_all_fields[OF l] obtain cfs where i: "items = map AControlField cfs" by blast
  from control_loop_fields[OF l[unfolded i]] have "list_all2 (\<lambda>c d. ?body c = Inr d) cfs ds"
    by simp
  from list_all2_right[OF this d] obtain c where "?body c = Inr d" by blast
  from control_entry_prepared[OF this]
  show "\<exists>img (m :: controlnet_model) cmode rmode.
              pc img cfg (int (latents_shape ! 3) * 8) (int (latents_shape ! 2) * 8)
                (cm_device m) (cm_dtype m) cmode rmode = Inr (cn_image_tensor d)"
    by blast
next
  assume a: "\<forall>img c dev dt cm rm.
          pc img c (int (latents_shape ! 3) * 8) (int (latents_shape ! 2) * 8) dev dt cm rm
            = pc' img c (int (latents_shape ! 3) * 8) (int (latents_shape ! 2) * 8) dev dt cm rm"
  show "prep_control_data gm gp pc control_input latents_shape st cfg
            = prep_control_data gm gp pc' control_input latents_shape st cfg"
    unfolding prep_control_data_def Let_def
      control_entry_cong[where pc = pc and pc' = pc' and w = "int (latents_shape ! 3) * 8"
        and h = "int (latents_shape ! 2) * 8", OF a]
    by (rule refl)
qed

theorem prep_control_data_image_size_witness:
  "prep_control_data sample_get_model sample_get_pil_image sample_prepare
      (ControlList [AControlField canny_field, AControlField depth_field]) [1, 4, 2, 3] [] True
     = Inr ([cn_model canny_data, cn_model depth_data], Some [canny_data, depth_data])
   \<and> (\<exists>img (m :: controlnet_model) cmode rmode.
         sample_prepare img True (int ([1, 4, 2, 3] ! 3) * 8) (int ([1, 4, 2, 3] ! 2) * 8)
           (cm_device m) (cm_dtype m) cmode rmode = Inr (cn_image_tensor canny_data))
   \<and> (\<exists>img (m :: controlnet_model) cmode rmode.
         sample_prepare img True (int ([1, 4, 2, 3] ! 3) * 8) (int ([1, 4, 2, 3] ! 2) * 8)
           (cm_device m) (cm_dtype m) cmode rmode = Inr (cn_image_tensor depth_data))
   \<and> int ([1, 4, 2, 3 :: nat] ! 3) * 8 = 24 \<and> int ([1, 4, 2, 3 :: nat] ! 2) * 8 = 16
   \<and> shape (cn_image_tensor canny_data) = [2, 3, 16, 24]
   \<and> shape (cn_image_tensor depth_data) = [2, 3, 16, 24]"
proof -
  note t = prep_control_data_image_size[where gm = sample_get_model
      and gp = sample_get_pil_image and pc = sample_prepare and pc' = sample_prepare
      and control_input = "ControlList [AControlField canny_field, AControlField depth_field]"
      and latents_shape = "[1, 4, 2, 3]" and st = "[]" and cfg = True,
      THEN conjunct1, rule_format, OF sample_control_run]
  have s: "shape (cn_image_tensor canny_data) = [2, 3, 16, 24]"
    "shape (cn_image_tensor depth_data) = [2, 3, 16, 24]"
    by (simp_all add: canny_data_def depth_data_def)
  have a: "int ([1, 4, 2, 3 :: nat] ! 3) * 8 = 24 \<and> int ([1, 4, 2, 3 :: nat] ! 2) * 8 = 16"
    by simp
  from t[of canny_data] t[of depth_data] sample_control_run s a show ?thesis
    by (simp del: One_nat_def)
qed

subsection \<open>C2: get_scheduler\<close>

lemma restore_merge: "restore_backup (merge_config base extra) = Inr base"
  by (simp add: restore_backup_def merge_config_def)

lemma merge_lookup:
  "merge_config base extra ''_backup'' = Some (CDict base)"
  "k \<noteq> ''_backup'' \<Longrightarrow>
     merge_config base extra k = (case extra k of Some v \<Rightarrow> Some v | None \<Rightarrow> base k)"
  by (simp_all add: merge_config_def map_add_def)

lemma sample_map: "sample_scheduler_map ''ddim'' = Some (''DDIMScheduler'', Map.empty)"
  "sample_scheduler_map ''euler_k'' = Some (''EulerDiscreteScheduler'', [''use_karras_sigmas'' \<mapsto> CBool True])"
  "sample_scheduler_map ''no_such'' = None"
  by (simp_all add: sample_scheduler_map_def)

lemma sample_restore: "restore_backup sample_stored_config = Inr sample_base_config"
  by (simp add: restore_backup_def sample_stored_config_def)

lemma sample_ddim_run:
  "get_scheduler sample_scheduler_map sample_get_config sample_from_config sample_has_attr
     sample_set_attr ''sched'' ''ddim'' =
   Inr (''DDIMScheduler'', Some (CInt 1000), None, True, True)"
  by (simp add: get_scheduler_def sample_map sample_get_config_def sample_restore
      sample_from_config_def merge_config_def sample_base_config_def sample_has_attr_def
      sample_set_attr_def)

lemma sample_euler_run:
  "get_scheduler sample_scheduler_map sample_get_config sample_from_config sample_has_attr
     sample_set_attr ''sched'' ''euler_k'' =
   Inr (''EulerDiscreteScheduler'', Some (CInt 1000), Some (CBool True), True, True)"
  by (simp add: get_scheduler_def sample_map sample_get_config_def sample_restore
      sample_from_config_def merge_config_def sample_base_config_def sample_has_attr_def
      sample_set_attr_def)

text \<open>
  Claim C2. Provided \<open>SCHEDULER_MAP\<close> has the entry \<^verbatim>\<open>"ddim"\<close>: for a name present in the map,
  get_scheduler takes the name's (class, extra config) entry and returns what the class's
  \<open>from_config\<close> builds from the merged config, where the base config is the original
  model's config, or its \<^verbatim>\<open>"_backup"\<close> entry when it has one, and the merged config is the base
  config overridden by the extra config, with the base config itself stored under
  \<^verbatim>\<open>"_backup"\<close> (so that restoring the backup of a merged config gives the base config back);
  the attribute \<open>uses_inpainting_model\<close> is set when the built scheduler lacks it. For a name
  absent from the map the result is the one for the name \<^verbatim>\<open>"ddim"\<close>. Errors of the model
  lookup, of a backup that is not a dictionary and of \<open>from_config\<close> are passed on.
\<close>

theorem get_scheduler_spec:
  assumes "SCHEDULER_MAP ''ddim'' = Some ddim"
  shows "(\<forall>cls extra. SCHEDULER_MAP name = Some (cls, extra) \<longrightarrow>
            get_scheduler SCHEDULER_MAP get_model from_config has_attr set_attr info name =
              (case get_model info of
                 Inl e \<Rightarrow> Inl e
               | Inr orig \<Rightarrow>
              (case restore_backup orig of
                 Inl e \<Rightarrow> Inl e
               | Inr base \<Rightarrow>
              (case from_config cls (merge_config base extra) of
                 Inl e \<Rightarrow> Inl e
               | Inr s \<Rightarrow> Inr (if has_attr s then s else set_attr s)))))
       \<and> (SCHEDULER_MAP name = None \<longrightarrow>
            get_scheduler SCHEDULER_MAP get_model from_config has_attr set_attr info name =
              get_scheduler SCHEDULER_MAP get_model from_config has_attr set_attr info ''ddim'')
       \<and> (\<forall>orig b. orig ''_backup'' = Some (CDict b) \<longrightarrow> restore_backup orig = Inr b)
       \<and> (\<forall>orig. orig ''_backup'' = None \<longrightarrow> restore_backup orig = Inr orig)
       \<and> (\<forall>base extra.
             merge_config base extra ''_backup'' = Some (CDict base)
             \<and> (\<forall>k. k \<noteq> ''_backup'' \<longrightarrow>
                    merge_config base extra k =
                      (case extra k of Some v \<Rightarrow> Some v | None \<Rightarrow> base k))
             \<and> restore_backup (merge_config base extra) = Inr base)"
proof (intro conjI allI impI)
  fix cls extra
  assume "SCHEDULER_MAP name = Some (cls, extra)"
  with assms show
    "get_scheduler SCHEDULER_MAP get_model from_config has_attr set_attr info name =
       (case get_model info of
          Inl e \<Rightarrow> Inl e
        | Inr orig \<Rightarrow>
       (case restore_backup orig of
          Inl e \<Rightarrow> Inl e
        | Inr base \<Rightarrow>
       (case from_config cls (merge_config base extra) of
          Inl e \<Rightarrow> Inl e
        | Inr s \<Rightarrow> Inr (if has_attr s then s else set_attr s))))"
    by (simp add: get_scheduler_def split: sum.split)
next
  assume "SCHEDULER_MAP name = None"
  with assms show
    "get_scheduler SCHEDULER_MAP get_model from_config has_attr set_attr info name =
       get_scheduler SCHEDULER_MAP get_model from_config has_attr set_attr info ''ddim''"
    by (simp add: get_scheduler_def)
next
  fix orig :: config and b
  assume "orig ''_backup'' = Some (CDict b)"
  then show "restore_backup orig = Inr b" by (simp add: restore_backup_def)
next
  fix orig :: config
  assume "orig ''_backup'' = None"
  then show "restore_backup orig = Inr orig" by (simp add: restore_backup_def)
next
  fix base extra :: config
  show "merge_config base extra ''_backup'' = Some (CDict base)" by (rule merge_lookup(1))
next
  fix base extra :: config and k :: string
  assume "k \<noteq> ''_backup''"
  then show "merge_config base extra k =
      (case extra k of Some v \<Rightarrow> Some v | None \<Rightarrow> base k)"
    by (rule merge_lookup(2))
next
  fix base extra :: config
  show "restore_backup (merge_config base extra) = Inr base" by (rule restore_merge)
qed

theorem get_scheduler_spec_witness:
  "sample_scheduler_map ''ddim'' = Some (''DDIMScheduler'', Map.empty)
   \<and> sample_get_config ''sched'' = Inr sample_stored_config
   \<and> sample_scheduler_map ''no_such'' = None
   \<and> sample_stored_config ''_backup'' = Some (CDict sample_base_config)
   \<and> get_scheduler sample_scheduler_map sample_get_config sample_from_config sample_has_attr
        sample_set_attr ''sched'' ''no_such'' =
      get_scheduler sample_scheduler_map sample_get_config sample_from_config sample_has_attr
        sample_set_attr ''sched'' ''ddim''
   \<and> get_scheduler sample_scheduler_map sample_get_config sample_from_config sample_has_attr
        sample_set_attr ''sched'' ''no_such'' =
      Inr (''DDIMScheduler'', Some (CInt 1000), None, True, True)
   \<and> get_scheduler sample_scheduler_map sample_get_config sample_from_config sample_has_attr
        sample_set_attr ''sched'' ''euler_k'' =
      Inr (''EulerDiscreteScheduler'', Some (CInt 1000), Some (CBool True), True, True)
   \<and> restore_backup sample_stored_config = Inr sample_base_config"
proof -
  have h1: "sample_scheduler_map ''ddim'' = Some (''DDIMScheduler'', Map.empty)"
    by (rule sample_map(1))
  have h2: "sample_get_config ''sched'' = Inr sample_stored_config"
    by (simp add: sample_get_config_def)
  have b: "sample_stored_config ''_backup'' = Some (CDict sample_base_config)"
    by (simp add: sample_stored_config_def)
  note t = get_scheduler_spec[where SCHEDULER_MAP = sample_scheduler_map
      and get_model = sample_get_config and from_config = sample_from_config
      and has_attr = sample_has_attr and set_attr = sample_set_attr and name = "''no_such''"
      and info = "''sched''", OF h1]
  from t sample_map(3) have f: "get_scheduler sample_scheduler_map sample_get_config
        sample_from_config sample_has_attr sample_set_attr ''sched'' ''no_such'' =
      get_scheduler sample_scheduler_map sample_get_config sample_from_config sample_has_attr
        sample_set_attr ''sched'' ''ddim''"
    by blast
  from t b have r: "restore_backup sample_stored_config = Inr sample_base_config"
    by blast
  from h1 h2 sample_map(3) b f r sample_ddim_run sample_euler_run show ?thesis
    by simp
qed

end
